theory Spec2Isabelle
  imports Main "HOL-Library.AList" "HOL-Library.Char_ord" "HOL-Library.List_Lexorder"
begin

section \<open>Go values used by the package\<close>

subsection \<open>Errors\<close>

text \<open>
  A Go \<^verbatim>\<open>error\<close> that may be \<^verbatim>\<open>nil\<close> is a \<open>go_error option\<close>. The sentinels of
  the storage library are constructors of their own, so that the comparison
  \<^verbatim>\<open>err == storage.ErrBucketNotExist\<close> of the source is equality with the constructor.
  \<open>ErrExternal\<close> is any other error value handed in by a collaborator (the storage
  client, the operating system, the package pool), \<open>Errorf\<close> the fresh error made by
  \<^verbatim>\<open>fmt.Errorf\<close>, \<open>Wrap\<close> and \<open>WithMessage\<close> the wrappers of \<^verbatim>\<open>github.com/pkg/errors\<close>,
  which keep the cause and put a message in front of it.
\<close>

datatype go_error =
    ErrBucketNotExist
  | ErrObjectNotExist
  | ErrExternal string
  | Errorf string
  | Wrap go_error string
  | WithMessage go_error string

fun Error :: "go_error \<Rightarrow> string" where
  "Error ErrBucketNotExist = ''storage: bucket doesn'' @ [CHR 0x27] @ ''t exist''"
| "Error ErrObjectNotExist = ''storage: object doesn'' @ [CHR 0x27] @ ''t exist''"
| "Error (ErrExternal m) = m"
| "Error (Errorf m) = m"
| "Error (Wrap cause m) = m @ '': '' @ Error cause"
| "Error (WithMessage cause m) = m @ '': '' @ Error cause"

subsection \<open>Paths: \<^verbatim>\<open>filepath.Join\<close> and \<^verbatim>\<open>filepath.Clean\<close> on Unix\<close>

text \<open>
  \<^verbatim>\<open>filepath.Clean\<close> works on the elements between separators: empty elements and
  \<^verbatim>\<open>.\<close> are dropped, \<^verbatim>\<open>..\<close> removes the element before it, is dropped at the root and
  is kept at the front of a relative path; the empty result is \<^verbatim>\<open>.\<close>.
  \<^verbatim>\<open>filepath.Join\<close> skips leading empty arguments, joins the rest with the separator and
  cleans the result; with no non-empty argument it returns the empty string.
\<close>

fun split_sep :: "string \<Rightarrow> string list" where
  "split_sep [] = [[]]"
| "split_sep (c # cs) =
     (if c = CHR ''/'' then [] # split_sep cs
      else (case split_sep cs of [] \<Rightarrow> [[c]] | x # xs \<Rightarrow> (c # x) # xs))"

fun clean_step :: "bool \<Rightarrow> string list \<Rightarrow> string \<Rightarrow> string list" where
  "clean_step rooted out el =
     (if el = [] \<or> el = ''.'' then out
      else if el = ''..'' then
        (case out of
           [] \<Rightarrow> if rooted then [] else [''..'']
         | t # ts \<Rightarrow> if t = ''..'' then ''..'' # out else ts)
      else el # out)"

fun join_sep :: "string list \<Rightarrow> string" where
  "join_sep [] = []"
| "join_sep [x] = x"
| "join_sep (x # y # ys) = x @ ''/'' @ join_sep (y # ys)"

definition Clean :: "string \<Rightarrow> string" where
  "Clean path =
     (if path = [] then ''.''
      else
        let rooted = (hd path = CHR ''/'');
            out = join_sep (rev (foldl (clean_step rooted) [] (split_sep path)))
        in if rooted then ''/'' @ out else if out = [] then ''.'' else out)"

definition Join :: "string list \<Rightarrow> string" where
  "Join elem =
     (case dropWhile (\<lambda>el. el = []) elem of
        [] \<Rightarrow> []
      | el # els \<Rightarrow> Clean (join_sep (el # els)))"

subsection \<open>\<^verbatim>\<open>hex.EncodeToString\<close>\<close>

definition hextable :: string where
  "hextable = ''0123456789abcdef''"

definition EncodeToString :: "string \<Rightarrow> string" where
  "EncodeToString src =
     concat (map (\<lambda>v. [hextable ! (of_char v div 16), hextable ! (of_char v mod 16)]) src)"

section \<open>The storage client\<close>

text \<open>
  The package talks to one bucket through \<^verbatim>\<open>cloud.google.com/go/storage\<close>. The bucket is
  an association list from object name to object; an object has its bytes, the MD5 digest
  the server keeps for it, and its metadata. Every request of the package is a
  \<open>client_call\<close>; the bucket records the requests made, in order, so that "no upload" and
  "one attempt" are statements about \<open>calls\<close>.

  Whether a request fails is not decided by the package. An environment gives, for the
  requests made so far and the request at hand, the error the client returns, or none; a
  failed request leaves the objects as they were. Without an error the request does what
  the service does: a write creates or replaces the object, a delete of a name that is not
  there returns \<open>ErrObjectNotExist\<close>, a listing returns the objects whose name starts with
  the query's prefix in the order of their names, a copy takes bytes, digest and metadata
  of the source and passes on the service's 404 error when there is no source, an update
  adds the given metadata keys.

  What the package uploads is an \<^verbatim>\<open>io.ReadSeeker\<close>, an opened file or an opened entry
  of the package pool: \<open>ReadSeeker data rerr\<close> yields the bytes \<open>data\<close> and then ends, with
  \<^verbatim>\<open>io.EOF\<close> when \<open>rerr\<close> is \<open>None\<close> and with the read error \<open>rerr\<close> otherwise (a
  directory, a failing disk). An upload is \<^verbatim>\<open>NewWriter\<close>, \<^verbatim>\<open>io.Copy\<close> and \<^verbatim>\<open>Close\<close>. The
  writer makes no request before its first \<^verbatim>\<open>Write\<close> or its \<^verbatim>\<open>Close\<close>, and the object
  exists only after \<^verbatim>\<open>Close\<close>. \<open>CallWrite\<close> is the upload carried to \<^verbatim>\<open>Close\<close>;
  \<open>CallWriteUnclosed\<close> is the upload that \<^verbatim>\<open>io.Copy\<close> began with the bytes read before a
  read error and that is never closed: it creates no object, and its error is the
  client's if the client failed the \<^verbatim>\<open>Write\<close>, the read error otherwise. A source whose
  first read fails hands the writer nothing, and no request is made.
\<close>

datatype ReadSeeker = ReadSeeker string "go_error option"

record gobject =
  Content :: string
  MD5 :: string
  Metadata :: "(string \<times> string) list"

datatype client_call =
    CallWrite string string
  | CallWriteUnclosed string string
  | CallDelete string
  | CallObjects string
  | CallAttrs string
  | CallCopy string string
  | CallUpdate string "(string \<times> string) list"

record bucket =
  objects :: "(string \<times> gobject) list"
  calls :: "client_call list"

record env =
  fault :: "client_call list \<Rightarrow> client_call \<Rightarrow> go_error option"
  md5sum :: "string \<Rightarrow> string"
  os_Open :: "string \<Rightarrow> go_error + ReadSeeker"

definition has_prefix :: "string \<Rightarrow> string \<Rightarrow> bool" where
  "has_prefix p s = (take (length p) s = p)"

definition logged :: "client_call \<Rightarrow> bucket \<Rightarrow> bucket" where
  "logged c w = w\<lparr>calls := calls w @ [c]\<rparr>"

definition obj_Write :: "env \<Rightarrow> bucket \<Rightarrow> string \<Rightarrow> string \<Rightarrow> go_error option \<times> bucket" where
  "obj_Write e w key source =
     (case fault e (calls w) (CallWrite key source) of
        Some err \<Rightarrow> (Some err, logged (CallWrite key source) w)
      | None \<Rightarrow>
          (None, logged (CallWrite key source)
             (w\<lparr>objects := AList.update key
                   \<lparr>Content = source, MD5 = md5sum e source, Metadata = []\<rparr> (objects w)\<rparr>)))"

definition obj_WriteUnclosed ::
  "env \<Rightarrow> bucket \<Rightarrow> string \<Rightarrow> string \<Rightarrow> go_error \<Rightarrow> go_error option \<times> bucket" where
  "obj_WriteUnclosed e w key source rerr =
     (if source = [] then (Some rerr, w)
      else
        (case fault e (calls w) (CallWriteUnclosed key source) of
           Some err \<Rightarrow> (Some err, logged (CallWriteUnclosed key source) w)
         | None \<Rightarrow> (Some rerr, logged (CallWriteUnclosed key source) w)))"

definition obj_Delete :: "env \<Rightarrow> bucket \<Rightarrow> string \<Rightarrow> go_error option \<times> bucket" where
  "obj_Delete e w key =
     (case fault e (calls w) (CallDelete key) of
        Some err \<Rightarrow> (Some err, logged (CallDelete key) w)
      | None \<Rightarrow>
          (case map_of (objects w) key of
             None \<Rightarrow> (Some ErrObjectNotExist, logged (CallDelete key) w)
           | Some _ \<Rightarrow>
               (None, logged (CallDelete key) (w\<lparr>objects := AList.delete key (objects w)\<rparr>))))"

definition obj_Objects ::
  "env \<Rightarrow> bucket \<Rightarrow> string \<Rightarrow> (go_error + (string \<times> gobject) list) \<times> bucket" where
  "obj_Objects e w p =
     (case fault e (calls w) (CallObjects p) of
        Some err \<Rightarrow> (Inl err, logged (CallObjects p) w)
      | None \<Rightarrow>
          (Inr (sort_key fst (filter (\<lambda>(name, _). has_prefix p name) (objects w))),
           logged (CallObjects p) w))"

definition obj_Attrs :: "env \<Rightarrow> bucket \<Rightarrow> string \<Rightarrow> (go_error + gobject) \<times> bucket" where
  "obj_Attrs e w key =
     (case fault e (calls w) (CallAttrs key) of
        Some err \<Rightarrow> (Inl err, logged (CallAttrs key) w)
      | None \<Rightarrow>
          (case map_of (objects w) key of
             None \<Rightarrow> (Inl ErrObjectNotExist, logged (CallAttrs key) w)
           | Some a \<Rightarrow> (Inr a, logged (CallAttrs key) w)))"

definition obj_Copy :: "env \<Rightarrow> bucket \<Rightarrow> string \<Rightarrow> string \<Rightarrow> go_error option \<times> bucket" where
  "obj_Copy e w src dst =
     (case fault e (calls w) (CallCopy src dst) of
        Some err \<Rightarrow> (Some err, logged (CallCopy src dst) w)
      | None \<Rightarrow>
          (case map_of (objects w) src of
             None \<Rightarrow> (Some (ErrExternal ''googleapi: Error 404: No such object''),
                      logged (CallCopy src dst) w)
           | Some a \<Rightarrow>
               (None, logged (CallCopy src dst)
                  (w\<lparr>objects := AList.update dst a (objects w)\<rparr>))))"

definition obj_Update ::
  "env \<Rightarrow> bucket \<Rightarrow> string \<Rightarrow> (string \<times> string) list \<Rightarrow> go_error option \<times> bucket" where
  "obj_Update e w key md =
     (case fault e (calls w) (CallUpdate key md) of
        Some err \<Rightarrow> (Some err, logged (CallUpdate key md) w)
      | None \<Rightarrow>
          (case map_of (objects w) key of
             None \<Rightarrow> (Some ErrObjectNotExist, logged (CallUpdate key md) w)
           | Some a \<Rightarrow>
               (None, logged (CallUpdate key md)
                  (w\<lparr>objects := AList.update key
                        (a\<lparr>Metadata := fold (\<lambda>(k, v). AList.update k v) md (Metadata a)\<rparr>)
                        (objects w)\<rparr>))))"

section \<open>PublishedStorage\<close>

text \<open>
  The struct of the source without its client pointer, which is the \<open>bucket\<close> passed next
  to it. \<open>pathCache\<close> is a Go map that may be \<^verbatim>\<open>nil\<close>. Every public method returns its
  result, the struct and the bucket as they are when it returns.
\<close>

record PublishedStorage =
  bucketName :: string
  prefix :: string
  pathCache :: "(string \<rightharpoonup> string) option"

definition String :: "PublishedStorage \<Rightarrow> string" where
  "String ps = ''GCS: '' @ bucketName ps @ '':'' @ prefix ps"

definition MkDir ::
  "env \<Rightarrow> PublishedStorage \<Rightarrow> bucket \<Rightarrow> string \<Rightarrow> go_error option \<times> PublishedStorage \<times> bucket" where
  "MkDir e ps w path = (None, ps, w)"

definition putFile ::
  "env \<Rightarrow> PublishedStorage \<Rightarrow> bucket \<Rightarrow> string \<Rightarrow> ReadSeeker
     \<Rightarrow> go_error option \<times> bucket" where
  "putFile e ps w path source =
     (let key = Join [prefix ps, path] in
      case source of
        ReadSeeker data None \<Rightarrow> obj_Write e w key data
      | ReadSeeker data (Some rerr) \<Rightarrow> obj_WriteUnclosed e w key data rerr)"

definition PutFile ::
  "env \<Rightarrow> PublishedStorage \<Rightarrow> bucket \<Rightarrow> string \<Rightarrow> string
     \<Rightarrow> go_error option \<times> PublishedStorage \<times> bucket" where
  "PutFile e ps w path sourceFilename =
     (case os_Open e sourceFilename of
        Inl err \<Rightarrow> (Some err, ps, w)
      | Inr source \<Rightarrow>
          (case putFile e ps w path source of
             (Some err, w') \<Rightarrow>
               (Some (Wrap err (''error uploading '' @ sourceFilename @ '' to '' @ String ps)),
                ps, w')
           | (None, w') \<Rightarrow> (None, ps, w')))"

definition Remove ::
  "env \<Rightarrow> PublishedStorage \<Rightarrow> bucket \<Rightarrow> string \<Rightarrow> go_error option \<times> PublishedStorage \<times> bucket" where
  "Remove e ps w path =
     (let key = Join [prefix ps, path] in
      case obj_Delete e w key of
        (Some err, w') \<Rightarrow>
          if err = ErrBucketNotExist then (None, ps, w')
          else (Some (Errorf (''error deleting '' @ key @ '' from '' @ String ps @ '': ''
                              @ Error err)), ps, w')
      | (None, w') \<Rightarrow> (None, ps, w'))"

definition internalFilelist ::
  "env \<Rightarrow> PublishedStorage \<Rightarrow> bucket \<Rightarrow> string
     \<Rightarrow> (go_error + string list \<times> string list) \<times> bucket" where
  "internalFilelist e ps w prefix0 =
     (let joined = Join [prefix ps, prefix0];
          p = (if joined \<noteq> [] then joined @ ''/'' else joined)
      in case obj_Objects e w p of
           (Inl err, w') \<Rightarrow>
             (Inl (WithMessage err (''error listing under prefix '' @ p @ '' in '' @ String ps
                                    @ '': '' @ Error err)), w')
         | (Inr items, w') \<Rightarrow>
             (Inr (map (\<lambda>(name, a). if p = [] then name else drop (length p) name) items,
                   map (\<lambda>(name, a). EncodeToString (MD5 a)) items), w'))"

fun removeEach ::
  "env \<Rightarrow> PublishedStorage \<Rightarrow> bucket \<Rightarrow> string \<Rightarrow> string list
     \<Rightarrow> go_error option \<times> PublishedStorage \<times> bucket" where
  "removeEach e ps w path [] = (None, ps, w)"
| "removeEach e ps w path (f # fs) =
     (case Remove e ps w (Join [prefix ps, path, f]) of
        (Some err, ps', w') \<Rightarrow>
          (Some (Errorf (''error deleting path '' @ f @ '' from '' @ String ps @ '': ''
                         @ Error err)), ps', w')
      | (None, ps', w') \<Rightarrow> removeEach e ps' w' path fs)"

definition RemoveDirs ::
  "env \<Rightarrow> PublishedStorage \<Rightarrow> bucket \<Rightarrow> string \<Rightarrow> go_error option \<times> PublishedStorage \<times> bucket" where
  "RemoveDirs e ps w path =
     (case internalFilelist e ps w path of
        (Inl err, w') \<Rightarrow>
          if err = ErrBucketNotExist then (None, ps, w') else (Some err, ps, w')
      | (Inr (filelist, _), w') \<Rightarrow> removeEach e ps w' path filelist)"

definition fillCache :: "string list \<Rightarrow> string list \<Rightarrow> (string \<rightharpoonup> string)" where
  "fillCache paths md5s =
     fold (\<lambda>i m. m(paths ! i \<mapsto> md5s ! i)) [0..<length paths] Map.empty"

definition LinkFromPool ::
  "env \<Rightarrow> PublishedStorage \<Rightarrow> bucket \<Rightarrow> string \<Rightarrow> string
     \<Rightarrow> (string \<Rightarrow> go_error + ReadSeeker)
     \<Rightarrow> string \<Rightarrow> string \<Rightarrow> bool \<Rightarrow> go_error option \<times> PublishedStorage \<times> bucket" where
  "LinkFromPool e ps w publishedDirectory fileName sourcePool sourcePath sourceMD5 force =
     (let relPath = Join [publishedDirectory, fileName];
          poolPath = Join [prefix ps, relPath];
          loaded =
            (case pathCache ps of
               Some c \<Rightarrow> (Inr c, w)
             | None \<Rightarrow>
                 (case internalFilelist e ps w [] of
                    (Inl err, w') \<Rightarrow> (Inl err, w')
                  | (Inr (paths, md5s), w') \<Rightarrow> (Inr (fillCache paths md5s), w')))
      in case loaded of
           (Inl err, w1) \<Rightarrow> (Some (Wrap err ''error caching paths under prefix''), ps, w1)
         | (Inr cache, w1) \<Rightarrow>
             (let ps1 = ps\<lparr>pathCache := Some cache\<rparr>;
                  blocked =
                    (case cache relPath of
                       None \<Rightarrow> None
                     | Some destinationMD5 \<Rightarrow>
                         if sourceMD5 = [] then
                           Some (Some (Errorf ''unable to compare object, MD5 checksum missing''))
                         else if destinationMD5 = sourceMD5 then Some None
                         else if \<not> force \<and> destinationMD5 \<noteq> sourceMD5 then
                           Some (Some (Errorf
                             (''error putting file to '' @ poolPath
                              @ '': file already exists and is different: '' @ String ps
                              @ '' '' @ destinationMD5 @ '' '' @ sourceMD5)))
                         else None)
              in case blocked of
                   Some r \<Rightarrow> (r, ps1, w1)
                 | None \<Rightarrow>
                     (case sourcePool sourcePath of
                        Inl err \<Rightarrow> (Some err, ps1, w1)
                      | Inr source \<Rightarrow>
                          (case putFile e ps1 w1 relPath source of
                             (None, w2) \<Rightarrow>
                               (None, ps1\<lparr>pathCache := Some (cache(relPath \<mapsto> sourceMD5))\<rparr>, w2)
                           | (Some err, w2) \<Rightarrow>
                               (Some (Wrap err (''error uploading '' @ sourcePath @ '' to ''
                                                @ String ps @ '': '' @ poolPath)), ps1, w2)))))"

definition attrs ::
  "env \<Rightarrow> PublishedStorage \<Rightarrow> bucket \<Rightarrow> string \<Rightarrow> (go_error + gobject) \<times> bucket" where
  "attrs e ps w path = obj_Attrs e w path"

definition Filelist ::
  "env \<Rightarrow> PublishedStorage \<Rightarrow> bucket \<Rightarrow> string
     \<Rightarrow> (go_error + string list) \<times> PublishedStorage \<times> bucket" where
  "Filelist e ps w prefix0 =
     (case internalFilelist e ps w prefix0 of
        (Inl err, w') \<Rightarrow> (Inl err, ps, w')
      | (Inr (paths, _), w') \<Rightarrow> (Inr paths, ps, w'))"

definition RenameFile ::
  "env \<Rightarrow> PublishedStorage \<Rightarrow> bucket \<Rightarrow> string \<Rightarrow> string
     \<Rightarrow> go_error option \<times> PublishedStorage \<times> bucket" where
  "RenameFile e ps w oldName newName =
     (let sourcePath = Join [prefix ps, oldName];
          destPath = Join [prefix ps, newName]
      in case obj_Copy e w sourcePath destPath of
           (Some err, w') \<Rightarrow> (Some err, ps, w')
         | (None, w') \<Rightarrow>
             (case obj_Delete e w' sourcePath of
                (Some err, w'') \<Rightarrow> (Some err, ps, w'')
              | (None, w'') \<Rightarrow> (None, ps, w'')))"

definition copy ::
  "env \<Rightarrow> PublishedStorage \<Rightarrow> bucket \<Rightarrow> string \<Rightarrow> string \<Rightarrow> go_error option \<times> bucket" where
  "copy e ps w src dst = obj_Copy e w src dst"

definition SymLink ::
  "env \<Rightarrow> PublishedStorage \<Rightarrow> bucket \<Rightarrow> string \<Rightarrow> string
     \<Rightarrow> go_error option \<times> PublishedStorage \<times> bucket" where
  "SymLink e ps w src dst =
     (let sourcePath = Join [prefix ps, src];
          destPath = Join [prefix ps, dst]
      in case copy e ps w sourcePath destPath of
           (Some err, w') \<Rightarrow>
             (Some (Errorf (''error symlinking '' @ src @ '' -> '' @ dst @ '' in '' @ String ps
                            @ '': '' @ Error err)), ps, w')
         | (None, w') \<Rightarrow>
             (case obj_Update e w' destPath [(''SymLink'', sourcePath)] of
                (Some err, w'') \<Rightarrow>
                  (Some (Errorf (''error symlinking '' @ src @ '' -> '' @ dst @ '' in ''
                                 @ String ps @ '': '' @ Error err)), ps, w'')
              | (None, w'') \<Rightarrow> (None, ps, w'')))"

definition HardLink ::
  "env \<Rightarrow> PublishedStorage \<Rightarrow> bucket \<Rightarrow> string \<Rightarrow> string
     \<Rightarrow> go_error option \<times> PublishedStorage \<times> bucket" where
  "HardLink e ps w src dst = SymLink e ps w src dst"

definition FileExists ::
  "env \<Rightarrow> PublishedStorage \<Rightarrow> bucket \<Rightarrow> string
     \<Rightarrow> (bool \<times> go_error option) \<times> PublishedStorage \<times> bucket" where
  "FileExists e ps w path =
     (let key = Join [prefix ps, path] in
      case attrs e ps w key of
        (Inl err, w') \<Rightarrow>
          if err = ErrObjectNotExist then ((False, None), ps, w') else ((False, Some err), ps, w')
      | (Inr _, w') \<Rightarrow> ((True, None), ps, w'))"

definition ReadLink ::
  "env \<Rightarrow> PublishedStorage \<Rightarrow> bucket \<Rightarrow> string
     \<Rightarrow> (string \<times> go_error option) \<times> PublishedStorage \<times> bucket" where
  "ReadLink e ps w path =
     (let key = Join [prefix ps, path] in
      case attrs e ps w key of
        (Inl err, w') \<Rightarrow> (([], Some err), ps, w')
      | (Inr a, w') \<Rightarrow>
          (case map_of (Metadata a) ''SymLink'' of
             Some link \<Rightarrow> ((link, None), ps, w')
           | None \<Rightarrow>
               (([], Some (Errorf (''error getting information about '' @ path @ '' from ''
                                   @ String ps @ '': %!s(<nil>)''))), ps, w')))"

section \<open>The storages and objects of the package's tests\<close>

text \<open>
  The environments: a client that never fails, a client for a bucket that does not exist
  (its listings are answered with \<open>ErrBucketNotExist\<close>, its deletes, attribute requests
  and updates with \<open>ErrObjectNotExist\<close>, its other requests with the service's 404
  error), a client that fails every write and copy. Each has a file system with the file
  the upload test writes, a directory, which opens and cannot be read, and a file whose
  reading fails after seven bytes. The three storages of the test
  suite, a pool with the two package files of the linking test, and the buckets the tests
  fill: the keys of the listing test and of the directory removal test, one file
  \<^verbatim>\<open>a/b\<close> for renaming and linking, and the storage and bucket as they are after the
  first link from the pool. Two buckets for the storage with the prefix \<^verbatim>\<open>lala\<close> hold
  an object under \<^verbatim>\<open>lala/test/\<close>, the second also an object at the key with the prefix
  twice.
\<close>

definition test_files :: "string \<Rightarrow> go_error + ReadSeeker" where
  "test_files name =
     (if name = ''/tmp/a'' then Inr (ReadSeeker ''welcome to gcs!'' None)
      else if name = ''/tmp/dir'' then
        Inr (ReadSeeker [] (Some (ErrExternal ''read /tmp/dir: is a directory'')))
      else if name = ''/tmp/bad'' then
        Inr (ReadSeeker ''welcome'' (Some (ErrExternal ''read /tmp/bad: input/output error'')))
      else Inl (ErrExternal (''open '' @ name @ '': no such file or directory'')))"

definition env_ok :: env where
  "env_ok = \<lparr>fault = (\<lambda>_ _. None), md5sum = (\<lambda>_. ''digest''), os_Open = test_files\<rparr>"

definition env_no_bucket :: env where
  "env_no_bucket =
     \<lparr>fault = (\<lambda>_ c. case c of
                        CallObjects _ \<Rightarrow> Some ErrBucketNotExist
                      | CallDelete _ \<Rightarrow> Some ErrObjectNotExist
                      | CallAttrs _ \<Rightarrow> Some ErrObjectNotExist
                      | CallUpdate _ _ \<Rightarrow> Some ErrObjectNotExist
                      | _ \<Rightarrow> Some (ErrExternal ''googleapi: Error 404: Not Found'')),
      md5sum = (\<lambda>_. ''digest''), os_Open = test_files\<rparr>"

definition test_object :: "string \<Rightarrow> gobject" where
  "test_object data = \<lparr>Content = data, MD5 = ''digest'', Metadata = []\<rparr>"

definition empty_bucket :: bucket where
  "empty_bucket = \<lparr>objects = [], calls = []\<rparr>"

definition publishedStorage :: PublishedStorage where
  "publishedStorage = \<lparr>bucketName = ''test'', prefix = [], pathCache = None\<rparr>"

definition prefixedStorage :: PublishedStorage where
  "prefixedStorage = \<lparr>bucketName = ''test'', prefix = ''lala'', pathCache = None\<rparr>"

definition noSuchBucketStorage :: PublishedStorage where
  "noSuchBucketStorage = \<lparr>bucketName = ''no-bucket'', prefix = [], pathCache = None\<rparr>"

definition test_pool :: "string \<Rightarrow> go_error + ReadSeeker" where
  "test_pool sourcePath =
     (if sourcePath = ''src1'' then Inr (ReadSeeker ''Contents'' None)
      else if sourcePath = ''src2'' then Inr (ReadSeeker ''Spam'' None)
      else Inl (ErrExternal (''open '' @ sourcePath @ '': no such file or directory'')))"

definition cachedStorage :: PublishedStorage where
  "cachedStorage =
     \<lparr>bucketName = ''test'', prefix = [], pathCache = Some [''pool/a.deb'' \<mapsto> ''c1df'']\<rparr>"

definition linked_bucket :: bucket where
  "linked_bucket =
     \<lparr>objects = [(''pool/a.deb'', test_object ''Contents'')],
      calls = [CallObjects [], CallWrite ''pool/a.deb'' ''Contents'']\<rparr>"

definition env_unavailable :: env where
  "env_unavailable =
     \<lparr>fault = (\<lambda>_ c. case c of
                        CallWrite _ _ \<Rightarrow> Some (ErrExternal ''googleapi: Error 503'')
                      | CallCopy _ _ \<Rightarrow> Some (ErrExternal ''googleapi: Error 503'')
                      | _ \<Rightarrow> None),
      md5sum = (\<lambda>_. ''digest''), os_Open = test_files\<rparr>"

definition listing_bucket :: bucket where
  "listing_bucket =
     \<lparr>objects = map (\<lambda>name. (name, test_object ''test''))
                  [''a'', ''b'', ''c'', ''testa'', ''test/a'', ''test/b'',
                   ''lala/a'', ''lala/b'', ''lala/c''],
      calls = []\<rparr>"

definition removedirs_bucket :: bucket where
  "removedirs_bucket =
     \<lparr>objects = map (\<lambda>name. (name, test_object ''test''))
                  [''a'', ''b'', ''c'', ''testa'', ''test/a+1'', ''test/a 1'',
                   ''lala/a+b'', ''lala/a b'', ''lala/c''],
      calls = []\<rparr>"

definition prefixed_bucket :: bucket where
  "prefixed_bucket = \<lparr>objects = [(''lala/test/a'', test_object ''test'')], calls = []\<rparr>"

definition shadowed_bucket :: bucket where
  "shadowed_bucket =
     \<lparr>objects = [(''lala/test/a'', test_object ''test''),
                 (''lala/lala/test/a'', test_object ''other'')],
      calls = []\<rparr>"

definition file_bucket :: bucket where
  "file_bucket = \<lparr>objects = [(''a/b'', test_object ''test'')], calls = []\<rparr>"

definition symlinked_bucket :: bucket where
  "symlinked_bucket =
     \<lparr>objects = [(''a/b'', test_object ''test''),
                 (''a/b.link'', \<lparr>Content = ''test'', MD5 = ''digest'',
                                 Metadata = [(''SymLink'', ''a/b'')]\<rparr>)],
      calls = [CallCopy ''a/b'' ''a/b.link'', CallUpdate ''a/b.link'' [(''SymLink'', ''a/b'')]]\<rparr>"

section \<open>Facts about the client\<close>

lemma calls_logged: "calls (logged c w) = calls w @ [c]"
  by (simp add: logged_def)

lemma objects_logged: "objects (logged c w) = objects w"
  by (simp add: logged_def)

lemma map_insort_key: "map f (insort_key f x xs) = insort (f x) (map f xs)"
  by (induction xs) simp_all

lemma map_sort_key: "map f (sort_key f xs) = sort (map f xs)"
  by (induction xs) (simp_all add: map_insort_key)

lemma filter_keys: "map fst (filter (\<lambda>(name, _). P name) xs) = filter P (map fst xs)"
  by (induction xs) auto

lemma map_name: "map (\<lambda>(name, a). g name) ys = map g (map fst ys)"
  by (induction ys) auto

lemma listed_paths:
  "map (\<lambda>(name, a). g name) (sort_key fst (filter (\<lambda>(name, _). P name) xs))
   = map g (sort (filter P (map fst xs)))"
  by (simp only: map_name map_sort_key filter_keys)

lemma obj_Objects_ok:
  "fault e (calls w) (CallObjects p) = None \<Longrightarrow>
   obj_Objects e w p =
     (Inr (sort_key fst (filter (\<lambda>(name, _). has_prefix p name) (objects w))),
      logged (CallObjects p) w)"
  by (simp add: obj_Objects_def)

lemma putFile_ok:
  "fault e (calls w) (CallWrite (Join [prefix ps, path]) source) = None \<Longrightarrow>
   putFile e ps w path (ReadSeeker source None) =
     (None, w\<lparr>objects := AList.update (Join [prefix ps, path])
                \<lparr>Content = source, MD5 = md5sum e source, Metadata = []\<rparr> (objects w),
              calls := calls w @ [CallWrite (Join [prefix ps, path]) source]\<rparr>)"
  by (simp add: putFile_def obj_Write_def logged_def Let_def)

lemma putFile_failed:
  "fault e (calls w) (CallWrite (Join [prefix ps, path]) source) = Some err \<Longrightarrow>
   putFile e ps w path (ReadSeeker source None) =
     (Some err, w\<lparr>calls := calls w @ [CallWrite (Join [prefix ps, path]) source]\<rparr>)"
  by (simp add: putFile_def obj_Write_def logged_def Let_def)

section \<open>Paths of the fixtures\<close>

lemma Join_pool_a: "Join [''pool'', ''a.deb''] = ''pool/a.deb''"
  by code_simp

lemma Join_root_pool_a: "Join [[], ''pool/a.deb''] = ''pool/a.deb''"
  by code_simp

section \<open>LinkFromPool\<close>

text \<open>
  Claim C1. When the path cache has an entry for the destination's relative path and its
  hash is the source's non-empty MD5 checksum, LinkFromPool returns no error and returns
  the storage and the bucket as they were, for either value of \<open>force\<close>: the cache is the
  same, the objects are the same, and no request was made, so nothing was uploaded.
\<close>

theorem LinkFromPool_same_checksum:
  assumes "pathCache ps = Some cache"
    and "cache (Join [publishedDirectory, fileName]) = Some sourceMD5"
    and "sourceMD5 \<noteq> []"
  shows "LinkFromPool e ps w publishedDirectory fileName sourcePool sourcePath sourceMD5 force
         = (None, ps, w)"
  using assms by (simp add: LinkFromPool_def Let_def)

theorem LinkFromPool_same_checksum_witness:
  "pathCache cachedStorage = Some [''pool/a.deb'' \<mapsto> ''c1df'']
   \<and> [''pool/a.deb'' \<mapsto> ''c1df''] (Join [''pool'', ''a.deb'']) = Some ''c1df''
   \<and> ''c1df'' \<noteq> []
   \<and> LinkFromPool env_ok cachedStorage linked_bucket ''pool'' ''a.deb'' test_pool
        ''wrong-looks-like-pathcache-doesnt-work'' ''c1df'' False
      = (None, cachedStorage, linked_bucket)"
proof -
  have h1: "pathCache cachedStorage = Some [''pool/a.deb'' \<mapsto> ''c1df'']"
    by (simp add: cachedStorage_def)
  have h2: "[''pool/a.deb'' \<mapsto> ''c1df''] (Join [''pool'', ''a.deb'']) = Some ''c1df''"
    by (simp add: Join_pool_a)
  have h3: "''c1df'' \<noteq> []" by simp
  from LinkFromPool_same_checksum [OF h1 h2 h3] h1 h2 h3 show ?thesis by simp
qed

text \<open>
  Claim C3. When the cached hash of the destination differs from the source's non-empty
  MD5 checksum: without \<open>force\<close> LinkFromPool returns the conflict error, whose text has the
  destination key, the cached hash and the source's hash, and returns the storage and the
  bucket as they were (no request, same objects, same cache). With \<open>force\<close>, when the pool
  opens the source, the source is read to its end and the client does not fail the write,
  it makes the one write request,
  returns no error, the object at the destination key has the source's bytes, and the
  cache entry is the source's checksum.
\<close>

theorem LinkFromPool_different_checksum:
  assumes "pathCache ps = Some cache"
    and "relPath = Join [publishedDirectory, fileName]"
    and "poolPath = Join [prefix ps, relPath]"
    and "cache relPath = Some destinationMD5"
    and "sourceMD5 \<noteq> []"
    and "destinationMD5 \<noteq> sourceMD5"
  shows "LinkFromPool e ps w publishedDirectory fileName sourcePool sourcePath sourceMD5 False
         = (Some (Errorf (''error putting file to '' @ poolPath
                          @ '': file already exists and is different: '' @ String ps
                          @ '' '' @ destinationMD5 @ '' '' @ sourceMD5)), ps, w)
       \<and> (sourcePool sourcePath = Inr (ReadSeeker source None)
            \<and> fault e (calls w) (CallWrite poolPath source) = None
          \<longrightarrow> LinkFromPool e ps w publishedDirectory fileName sourcePool sourcePath sourceMD5 True
                = (None, ps\<lparr>pathCache := Some (cache(relPath \<mapsto> sourceMD5))\<rparr>,
                   w\<lparr>objects := AList.update poolPath
                         \<lparr>Content = source, MD5 = md5sum e source, Metadata = []\<rparr> (objects w),
                     calls := calls w @ [CallWrite poolPath source]\<rparr>)
              \<and> map_option Content
                  (map_of (objects (snd (snd (LinkFromPool e ps w publishedDirectory fileName
                                               sourcePool sourcePath sourceMD5 True)))) poolPath)
                = Some source)"
  using assms by (auto simp add: LinkFromPool_def Let_def putFile_ok AList.update_conv')

theorem LinkFromPool_different_checksum_witness:
  "pathCache cachedStorage = Some [''pool/a.deb'' \<mapsto> ''c1df'']
   \<and> ''pool/a.deb'' = Join [''pool'', ''a.deb'']
   \<and> ''pool/a.deb'' = Join [prefix cachedStorage, ''pool/a.deb'']
   \<and> [''pool/a.deb'' \<mapsto> ''c1df''] ''pool/a.deb'' = Some ''c1df''
   \<and> ''e9df'' \<noteq> [] \<and> ''c1df'' \<noteq> ''e9df''
   \<and> test_pool ''src2'' = Inr (ReadSeeker ''Spam'' None)
   \<and> fault env_ok (calls linked_bucket) (CallWrite ''pool/a.deb'' ''Spam'') = None
   \<and> LinkFromPool env_ok cachedStorage linked_bucket ''pool'' ''a.deb'' test_pool ''src2''
        ''e9df'' False
      = (Some (Errorf (''error putting file to pool/a.deb: file already exists and is ''
                       @ ''different: GCS: test: c1df e9df'')), cachedStorage, linked_bucket)
   \<and> map_option Content
        (map_of (objects (snd (snd (LinkFromPool env_ok cachedStorage linked_bucket ''pool''
                                     ''a.deb'' test_pool ''src2'' ''e9df'' True))))
           ''pool/a.deb'')
      = Some ''Spam''"
proof -
  have h1: "pathCache cachedStorage = Some [''pool/a.deb'' \<mapsto> ''c1df'']"
    by (simp add: cachedStorage_def)
  have h2: "''pool/a.deb'' = Join [''pool'', ''a.deb'']"
    by (simp add: Join_pool_a)
  have h3: "''pool/a.deb'' = Join [prefix cachedStorage, ''pool/a.deb'']"
    by (simp add: cachedStorage_def Join_root_pool_a)
  have h4: "[''pool/a.deb'' \<mapsto> ''c1df''] ''pool/a.deb'' = Some ''c1df''" by simp
  have h5: "''e9df'' \<noteq> []" by simp
  have h6: "''c1df'' \<noteq> ''e9df''" by simp
  have h7: "test_pool ''src2'' = Inr (ReadSeeker ''Spam'' None)" by (simp add: test_pool_def)
  have h8: "fault env_ok (calls linked_bucket) (CallWrite ''pool/a.deb'' ''Spam'') = None"
    by (simp add: env_ok_def)
  have s: "String cachedStorage = ''GCS: test:''"
    by (simp add: String_def cachedStorage_def)
  note r = LinkFromPool_different_checksum [OF h1 h2 h3 h4 h5 h6,
      of env_ok linked_bucket test_pool "''src2''" "''Spam''"]
  from r have r1: "LinkFromPool env_ok cachedStorage linked_bucket ''pool'' ''a.deb'' test_pool ''src2''
        ''e9df'' False
      = (Some (Errorf (''error putting file to pool/a.deb: file already exists and is ''
                       @ ''different: GCS: test: c1df e9df'')), cachedStorage, linked_bucket)"
    by (simp add: s)
  from r h7 h8 have r2: "map_option Content
        (map_of (objects (snd (snd (LinkFromPool env_ok cachedStorage linked_bucket ''pool''
                                     ''a.deb'' test_pool ''src2'' ''e9df'' True))))
           ''pool/a.deb'')
      = Some ''Spam''"
    by blast
  from h1 h2 h3 h4 h5 h6 h7 h8 r1 r2 show ?thesis by blast
qed

text \<open>
  Claim C4. When the path cache has an entry for the destination's relative path and the
  source's MD5 checksum is the empty string, LinkFromPool returns an error, for either
  value of \<open>force\<close>, and returns the storage and the bucket as they were: no request was
  made and the cache is the same.
\<close>

theorem LinkFromPool_empty_checksum:
  assumes "pathCache ps = Some cache"
    and "cache (Join [publishedDirectory, fileName]) = Some destinationMD5"
  shows "LinkFromPool e ps w publishedDirectory fileName sourcePool sourcePath [] force
         = (Some (Errorf ''unable to compare object, MD5 checksum missing''), ps, w)"
  using assms by (simp add: LinkFromPool_def Let_def)

theorem LinkFromPool_empty_checksum_witness:
  "pathCache cachedStorage = Some [''pool/a.deb'' \<mapsto> ''c1df'']
   \<and> [''pool/a.deb'' \<mapsto> ''c1df''] (Join [''pool'', ''a.deb'']) = Some ''c1df''
   \<and> LinkFromPool env_ok cachedStorage linked_bucket ''pool'' ''a.deb'' test_pool ''src1'' [] True
      = (Some (Errorf ''unable to compare object, MD5 checksum missing''),
         cachedStorage, linked_bucket)
   \<and> LinkFromPool env_ok cachedStorage linked_bucket ''pool'' ''a.deb'' test_pool ''src1'' [] False
      = (Some (Errorf ''unable to compare object, MD5 checksum missing''),
         cachedStorage, linked_bucket)"
proof -
  have h1: "pathCache cachedStorage = Some [''pool/a.deb'' \<mapsto> ''c1df'']"
    by (simp add: cachedStorage_def)
  have h2: "[''pool/a.deb'' \<mapsto> ''c1df''] (Join [''pool'', ''a.deb'']) = Some ''c1df''"
    by (simp add: Join_pool_a)
  from LinkFromPool_empty_checksum [OF h1 h2] h1 h2 show ?thesis by simp
qed

section \<open>PutFile\<close>

text \<open>
  Claim C5, as the code has it. When the source file cannot be opened, PutFile returns the
  error of \<^verbatim>\<open>os.Open\<close> as it is, without context, and makes no request. When the file
  opens and is read to its end, PutFile makes exactly one write request; if the client
  fails it, the error returned is the client's error wrapped with the text
  "error uploading <source> to <storage>", and otherwise PutFile returns no error. When
  the file opens and reading it fails, PutFile returns the cause wrapped with the same
  text and the objects of the bucket are as they were: with no byte read the cause is the
  read error and no request is made; with some bytes read one upload is begun and left
  unclosed, and the cause is the client's error if the client failed it, the read error
  otherwise. In no case does PutFile make a second request.
\<close>

theorem PutFile_errors:
  "(os_Open e sourceFilename = Inl err
      \<longrightarrow> PutFile e ps w path sourceFilename = (Some err, ps, w))
   \<and> (os_Open e sourceFilename = Inr (ReadSeeker source None)
      \<longrightarrow> fst (PutFile e ps w path sourceFilename)
          = map_option
              (\<lambda>cause. Wrap cause (''error uploading '' @ sourceFilename @ '' to '' @ String ps))
              (fault e (calls w) (CallWrite (Join [prefix ps, path]) source))
        \<and> calls (snd (snd (PutFile e ps w path sourceFilename)))
          = calls w @ [CallWrite (Join [prefix ps, path]) source])
   \<and> (os_Open e sourceFilename = Inr (ReadSeeker source (Some rerr))
      \<longrightarrow> fst (PutFile e ps w path sourceFilename)
          = Some (Wrap
                    (if source = [] then rerr
                     else (case fault e (calls w)
                                  (CallWriteUnclosed (Join [prefix ps, path]) source) of
                             None \<Rightarrow> rerr
                           | Some cerr \<Rightarrow> cerr))
                    (''error uploading '' @ sourceFilename @ '' to '' @ String ps))
        \<and> objects (snd (snd (PutFile e ps w path sourceFilename))) = objects w
        \<and> calls (snd (snd (PutFile e ps w path sourceFilename)))
          = (if source = [] then calls w
             else calls w @ [CallWriteUnclosed (Join [prefix ps, path]) source]))"
  by (auto simp add: PutFile_def putFile_def obj_Write_def obj_WriteUnclosed_def Let_def
           calls_logged objects_logged
           split: option.splits)

text \<open>
  The claim as written fails when the file cannot be opened: the error of \<^verbatim>\<open>os.Open\<close>
  comes back bare, and its text does not start with "error uploading".
\<close>

theorem PutFile_open_error_not_wrapped:
  "PutFile env_ok publishedStorage empty_bucket ''a/b.txt'' ''/missing''
   = (Some (ErrExternal ''open /missing: no such file or directory''),
      publishedStorage, empty_bucket)
   \<and> Error (ErrExternal ''open /missing: no such file or directory'')
     = ''open /missing: no such file or directory''"
  by (simp add: PutFile_def env_ok_def test_files_def)

lemma Join_root_a_b_txt: "Join [[], ''a/b.txt''] = ''a/b.txt''"
  by code_simp

theorem PutFile_errors_witness:
  "os_Open env_unavailable ''/missing''
     = Inl (ErrExternal ''open /missing: no such file or directory'')
   \<and> PutFile env_unavailable publishedStorage empty_bucket ''a/b.txt'' ''/missing''
     = (Some (ErrExternal ''open /missing: no such file or directory''),
        publishedStorage, empty_bucket)
   \<and> os_Open env_unavailable ''/tmp/a'' = Inr (ReadSeeker ''welcome to gcs!'' None)
   \<and> fst (PutFile env_unavailable publishedStorage empty_bucket ''a/b.txt'' ''/tmp/a'')
     = Some (Wrap (ErrExternal ''googleapi: Error 503'')
               ''error uploading /tmp/a to GCS: test:'')
   \<and> calls (snd (snd (PutFile env_unavailable publishedStorage empty_bucket ''a/b.txt''
                         ''/tmp/a'')))
     = [CallWrite ''a/b.txt'' ''welcome to gcs!'']
   \<and> os_Open env_ok ''/tmp/dir''
     = Inr (ReadSeeker [] (Some (ErrExternal ''read /tmp/dir: is a directory'')))
   \<and> fst (PutFile env_ok publishedStorage empty_bucket ''a/b.txt'' ''/tmp/dir'')
     = Some (Wrap (ErrExternal ''read /tmp/dir: is a directory'')
               ''error uploading /tmp/dir to GCS: test:'')
   \<and> objects (snd (snd (PutFile env_ok publishedStorage empty_bucket ''a/b.txt'' ''/tmp/dir'')))
     = []
   \<and> calls (snd (snd (PutFile env_ok publishedStorage empty_bucket ''a/b.txt'' ''/tmp/dir'')))
     = []
   \<and> os_Open env_ok ''/tmp/bad''
     = Inr (ReadSeeker ''welcome'' (Some (ErrExternal ''read /tmp/bad: input/output error'')))
   \<and> fst (PutFile env_ok publishedStorage empty_bucket ''a/b.txt'' ''/tmp/bad'')
     = Some (Wrap (ErrExternal ''read /tmp/bad: input/output error'')
               ''error uploading /tmp/bad to GCS: test:'')
   \<and> objects (snd (snd (PutFile env_ok publishedStorage empty_bucket ''a/b.txt'' ''/tmp/bad'')))
     = []
   \<and> calls (snd (snd (PutFile env_ok publishedStorage empty_bucket ''a/b.txt'' ''/tmp/bad'')))
     = [CallWriteUnclosed ''a/b.txt'' ''welcome'']"
proof -
  have h1: "os_Open env_unavailable ''/missing''
            = Inl (ErrExternal ''open /missing: no such file or directory'')"
    by (simp add: env_unavailable_def test_files_def)
  have h2: "os_Open env_unavailable ''/tmp/a'' = Inr (ReadSeeker ''welcome to gcs!'' None)"
    by (simp add: env_unavailable_def test_files_def)
  have h3: "os_Open env_ok ''/tmp/dir''
            = Inr (ReadSeeker [] (Some (ErrExternal ''read /tmp/dir: is a directory'')))"
    by (simp add: env_ok_def test_files_def)
  have h4: "os_Open env_ok ''/tmp/bad''
            = Inr (ReadSeeker ''welcome''
                     (Some (ErrExternal ''read /tmp/bad: input/output error'')))"
    by (simp add: env_ok_def test_files_def)
  have f: "fault env_unavailable (calls empty_bucket) (CallWrite ''a/b.txt'' ''welcome to gcs!'')
           = Some (ErrExternal ''googleapi: Error 503'')"
    by (simp add: env_unavailable_def)
  have g: "fault env_ok [] (CallWriteUnclosed ''a/b.txt'' ''welcome'') = None"
    by (simp add: env_ok_def)
  have s: "String publishedStorage = ''GCS: test:''"
    by (simp add: String_def publishedStorage_def)
  have p: "prefix publishedStorage = []"
    by (simp add: publishedStorage_def)
  have c: "calls empty_bucket = []" and ob: "objects empty_bucket = []"
    by (simp_all add: empty_bucket_def)
  from PutFile_errors [of env_unavailable "''/missing''" _ publishedStorage empty_bucket
                          "''a/b.txt''"] h1
  have r1: "PutFile env_unavailable publishedStorage empty_bucket ''a/b.txt'' ''/missing''
     = (Some (ErrExternal ''open /missing: no such file or directory''),
        publishedStorage, empty_bucket)"
    by blast
  from PutFile_errors [of env_unavailable "''/tmp/a''" _ publishedStorage empty_bucket
                          "''a/b.txt''" "''welcome to gcs!''"] h2
  have r2: "fst (PutFile env_unavailable publishedStorage empty_bucket ''a/b.txt'' ''/tmp/a'')
          = map_option
              (\<lambda>cause. Wrap cause (''error uploading '' @ ''/tmp/a'' @ '' to ''
                                      @ String publishedStorage))
              (fault env_unavailable (calls empty_bucket)
                 (CallWrite (Join [prefix publishedStorage, ''a/b.txt'']) ''welcome to gcs!''))
        \<and> calls (snd (snd (PutFile env_unavailable publishedStorage empty_bucket ''a/b.txt''
                              ''/tmp/a'')))
          = calls empty_bucket
            @ [CallWrite (Join [prefix publishedStorage, ''a/b.txt'']) ''welcome to gcs!'']"
    by blast
  from r2 have r3: "fst (PutFile env_unavailable publishedStorage empty_bucket ''a/b.txt'' ''/tmp/a'')
     = Some (Wrap (ErrExternal ''googleapi: Error 503'')
               ''error uploading /tmp/a to GCS: test:'')"
    by (simp add: p Join_root_a_b_txt f s)
  from r2 have r4: "calls (snd (snd (PutFile env_unavailable publishedStorage empty_bucket ''a/b.txt''
                         ''/tmp/a'')))
     = [CallWrite ''a/b.txt'' ''welcome to gcs!'']"
    by (simp add: p Join_root_a_b_txt c)
  note d = PutFile_errors [of env_ok "''/tmp/dir''" _ publishedStorage empty_bucket
                             "''a/b.txt''" "[]" "ErrExternal ''read /tmp/dir: is a directory''"]
  from d h3 have d1: "fst (PutFile env_ok publishedStorage empty_bucket ''a/b.txt'' ''/tmp/dir'')
     = Some (Wrap (ErrExternal ''read /tmp/dir: is a directory'')
               ''error uploading /tmp/dir to GCS: test:'')"
    and d2: "objects (snd (snd (PutFile env_ok publishedStorage empty_bucket ''a/b.txt''
                                  ''/tmp/dir''))) = []"
    and d3: "calls (snd (snd (PutFile env_ok publishedStorage empty_bucket ''a/b.txt''
                                ''/tmp/dir''))) = []"
    by (simp_all add: s c ob)
  note b = PutFile_errors [of env_ok "''/tmp/bad''" _ publishedStorage empty_bucket
                             "''a/b.txt''" "''welcome''"
                             "ErrExternal ''read /tmp/bad: input/output error''"]
  from b h4 have b1: "fst (PutFile env_ok publishedStorage empty_bucket ''a/b.txt'' ''/tmp/bad'')
     = Some (Wrap (ErrExternal ''read /tmp/bad: input/output error'')
               ''error uploading /tmp/bad to GCS: test:'')"
    and b2: "objects (snd (snd (PutFile env_ok publishedStorage empty_bucket ''a/b.txt''
                                  ''/tmp/bad''))) = []"
    and b3: "calls (snd (snd (PutFile env_ok publishedStorage empty_bucket ''a/b.txt''
                                ''/tmp/bad''))) = [CallWriteUnclosed ''a/b.txt'' ''welcome'']"
    by (simp_all add: s c ob p Join_root_a_b_txt g)
  from h1 r1 h2 r3 r4 h3 d1 d2 d3 h4 b1 b2 b3 show ?thesis by blast
qed

section \<open>Remove and RemoveDirs\<close>

lemma Remove_missing_bucket:
  assumes "fault e (calls w) (CallDelete (Join [prefix ps, path])) = Some ErrBucketNotExist"
  shows "Remove e ps w path
         = (None, ps, w\<lparr>calls := calls w @ [CallDelete (Join [prefix ps, path])]\<rparr>)"
  using assms by (simp add: Remove_def obj_Delete_def logged_def Let_def)

lemma Remove_other_error:
  assumes "fst (obj_Delete e w (Join [prefix ps, path])) = Some err"
    and "err \<noteq> ErrBucketNotExist"
  shows "fst (Remove e ps w path)
         = Some (Errorf (''error deleting '' @ Join [prefix ps, path] @ '' from '' @ String ps
                         @ '': '' @ Error err))"
proof -
  from assms(1) obtain w' where "obj_Delete e w (Join [prefix ps, path]) = (Some err, w')"
    by (cases "obj_Delete e w (Join [prefix ps, path])") auto
  with assms(2) show ?thesis
    by (simp add: Remove_def Let_def)
qed

lemma Remove_deletes:
  assumes "map_of (objects w) (Join [prefix ps, path]) = Some obj"
    and "fault e (calls w) (CallDelete (Join [prefix ps, path])) = None"
  shows "Remove e ps w path
         = (None, ps, w\<lparr>objects := AList.delete (Join [prefix ps, path]) (objects w),
                        calls := calls w @ [CallDelete (Join [prefix ps, path])]\<rparr>)"
  using assms by (simp add: Remove_def obj_Delete_def logged_def Let_def)

lemma internalFilelist_error:
  assumes "p = (if Join [prefix ps, path] \<noteq> [] then Join [prefix ps, path] @ ''/'' else [])"
    and "fault e (calls w) (CallObjects p) = Some err"
  shows "internalFilelist e ps w path
         = (Inl (WithMessage err (''error listing under prefix '' @ p @ '' in '' @ String ps
                                  @ '': '' @ Error err)), logged (CallObjects p) w)"
proof -
  from assms(2) have "obj_Objects e w p = (Inl err, logged (CallObjects p) w)"
    by (simp add: obj_Objects_def)
  with assms(1) show ?thesis
    by (auto simp add: internalFilelist_def Let_def)
qed

lemma RemoveDirs_listing_error:
  assumes "p = (if Join [prefix ps, path] \<noteq> [] then Join [prefix ps, path] @ ''/'' else [])"
    and "fault e (calls w) (CallObjects p) = Some err"
  shows "RemoveDirs e ps w path
         = (Some (WithMessage err (''error listing under prefix '' @ p @ '' in '' @ String ps
                                   @ '': '' @ Error err)), ps, logged (CallObjects p) w)"
  by (simp add: RemoveDirs_def internalFilelist_error [OF assms])

text \<open>
  Claim C6 at the input of the package's own test for a missing bucket. The listing of
  RemoveDirs fails with \<open>ErrBucketNotExist\<close>; internalFilelist puts a message around the
  error before it returns it, the comparison with the sentinel in RemoveDirs is false, and
  RemoveDirs returns the error instead of success.
\<close>

theorem RemoveDirs_missing_bucket_fails:
  "fst (RemoveDirs env_no_bucket noSuchBucketStorage empty_bucket ''a/b'')
   = Some (WithMessage ErrBucketNotExist
             (''error listing under prefix a/b/ in GCS: no-bucket:: storage: bucket doesn''
              @ [CHR 0x27] @ ''t exist''))
   \<and> calls (snd (snd (RemoveDirs env_no_bucket noSuchBucketStorage empty_bucket ''a/b'')))
     = [CallObjects ''a/b/'']"
  by code_simp

text \<open>
  Claim C2 at a storage with a prefix. RemoveDirs lists under \<^verbatim>\<open>lala/test/\<close>, finds the
  object \<^verbatim>\<open>lala/test/a\<close>, and hands Remove a path that already has the prefix; Remove
  joins the prefix again and asks for the deletion of \<^verbatim>\<open>lala/lala/test/a\<close>. The object
  under the directory is still there and RemoveDirs returns an error.
\<close>

theorem RemoveDirs_prefixed_fails:
  "fst (RemoveDirs env_ok prefixedStorage prefixed_bucket ''test'')
   = Some (Errorf (''error deleting path a from GCS: test:lala: error deleting ''
                   @ ''lala/lala/test/a from GCS: test:lala: storage: object doesn''
                   @ [CHR 0x27] @ ''t exist''))
   \<and> snd (snd (RemoveDirs env_ok prefixedStorage prefixed_bucket ''test''))
     = \<lparr>objects = [(''lala/test/a'', test_object ''test'')],
        calls = [CallObjects ''lala/test/'', CallDelete ''lala/lala/test/a'']\<rparr>"
  by code_simp

text \<open>
  With an object at the doubled key, that object is the one deleted, and RemoveDirs
  returns success with the directory's object still in the bucket.
\<close>

lemma RemoveDirs_prefixed_wrong_object:
  "fst (RemoveDirs env_ok prefixedStorage shadowed_bucket ''test'') = None
   \<and> snd (snd (RemoveDirs env_ok prefixedStorage shadowed_bucket ''test''))
     = \<lparr>objects = [(''lala/test/a'', test_object ''test'')],
        calls = [CallObjects ''lala/test/'', CallDelete ''lala/lala/test/a'']\<rparr>"
  by code_simp

text \<open>
  The package's test of RemoveDirs, on the storage without prefix: the two objects under
  \<^verbatim>\<open>test/\<close> are deleted, \<^verbatim>\<open>testa\<close> and the rest stay.
\<close>

lemma RemoveDirs_test:
  "fst (RemoveDirs env_ok publishedStorage removedirs_bucket ''test'') = None
   \<and> map fst (objects (snd (snd (RemoveDirs env_ok publishedStorage removedirs_bucket ''test''))))
     = [''a'', ''b'', ''c'', ''testa'', ''lala/a+b'', ''lala/a b'', ''lala/c'']
   \<and> calls (snd (snd (RemoveDirs env_ok publishedStorage removedirs_bucket ''test'')))
     = [CallObjects ''test/'', CallDelete ''test/a 1'', CallDelete ''test/a+1'']"
  by code_simp

section \<open>Filelist\<close>

lemma internalFilelist_paths:
  assumes "p = (if Join [prefix ps, q] \<noteq> [] then Join [prefix ps, q] @ ''/'' else [])"
    and "fault e (calls w) (CallObjects p) = None"
  shows "map_sum id fst (fst (internalFilelist e ps w q))
         = Inr (map (\<lambda>name. if p = [] then name else drop (length p) name)
                  (sort (filter (has_prefix p) (map fst (objects w)))))"
proof -
  have "internalFilelist e ps w q =
          (Inr (map (\<lambda>(name, a). if p = [] then name else drop (length p) name)
                  (sort_key fst (filter (\<lambda>(name, _). has_prefix p name) (objects w))),
                map (\<lambda>(name, a). EncodeToString (MD5 a))
                  (sort_key fst (filter (\<lambda>(name, _). has_prefix p name) (objects w)))),
           logged (CallObjects p) w)"
    using assms by (auto simp add: internalFilelist_def Let_def obj_Objects_ok)
  then show ?thesis
    by (simp only: listed_paths fst_conv map_sum.simps)
qed

lemma Filelist_internal:
  "fst (Filelist e ps w q) = map_sum id fst (fst (internalFilelist e ps w q))"
  by (simp add: Filelist_def split: prod.splits sum.splits)

text \<open>
  Claim C7, as the code has it. Let \<open>mapped\<close> be the storage prefix joined with the
  queried prefix, and let the client's listing not fail. When \<open>mapped\<close> is not empty,
  Filelist returns, in the order of the keys, the keys that start with \<open>mapped\<close> and a
  slash, each without that start; no such key gives the empty list and no error. When
  \<open>mapped\<close> is empty, Filelist returns every key of the bucket, whole.
\<close>

theorem Filelist_prefix:
  assumes "mapped = Join [prefix ps, q]"
    and "fault e (calls w) (CallObjects (if mapped = [] then [] else mapped @ ''/'')) = None"
  shows "(mapped \<noteq> [] \<longrightarrow>
            fst (Filelist e ps w q)
            = Inr (map (drop (length (mapped @ ''/'')))
                     (sort (filter (has_prefix (mapped @ ''/'')) (map fst (objects w)))))
          \<and> (filter (has_prefix (mapped @ ''/'')) (map fst (objects w)) = []
               \<longrightarrow> fst (Filelist e ps w q) = Inr []))
       \<and> (mapped = [] \<longrightarrow>
            fst (Filelist e ps w q) = Inr (sort (map fst (objects w))))"
proof (cases "mapped = []")
  case True
  with assms have "fault e (calls w) (CallObjects []) = None" by simp
  from internalFilelist_paths [OF _ this, of ps q] True assms(1)
  show ?thesis by (simp add: Filelist_internal has_prefix_def)
next
  case False
  with assms have f: "fault e (calls w) (CallObjects (mapped @ ''/'')) = None" by simp
  from internalFilelist_paths [OF _ f, of ps q] False assms(1)
  show ?thesis by (simp add: Filelist_internal)
qed

text \<open>
  The claim as written fails for the storage without prefix and the empty query: the
  listing of the package's test returns all nine keys, and \<^verbatim>\<open>a\<close> does not start with
  the mapped prefix and a slash.
\<close>

theorem Filelist_empty_prefix_lists_all:
  "fst (Filelist env_ok publishedStorage listing_bucket [])
   = Inr [''a'', ''b'', ''c'', ''lala/a'', ''lala/b'', ''lala/c'', ''test/a'', ''test/b'',
          ''testa'']
   \<and> \<not> has_prefix (Join [prefix publishedStorage, []] @ ''/'') ''a''"
  by code_simp

lemma Filelist_test_keys:
  "map (drop (length (''test'' @ ''/'')))
     (sort (filter (has_prefix (''test'' @ ''/'')) (map fst (objects listing_bucket))))
   = [''a'', ''b'']"
  "filter (has_prefix (''test2'' @ ''/'')) (map fst (objects listing_bucket)) = []"
  "sort (map fst (objects listing_bucket))
   = [''a'', ''b'', ''c'', ''lala/a'', ''lala/b'', ''lala/c'', ''test/a'', ''test/b'', ''testa'']"
  by code_simp+

lemma Join_root_test: "Join [[], ''test''] = ''test''" "Join [[], ''test2''] = ''test2''"
  "Join [[], []] = []"
  by code_simp+

theorem Filelist_prefix_witness:
  "''test'' = Join [prefix publishedStorage, ''test'']
   \<and> fault env_ok (calls listing_bucket)
       (CallObjects (if ''test'' = [] then [] else ''test'' @ ''/'')) = None
   \<and> ''test'' \<noteq> []
   \<and> fst (Filelist env_ok publishedStorage listing_bucket ''test'') = Inr [''a'', ''b'']
   \<and> filter (has_prefix (''test2'' @ ''/'')) (map fst (objects listing_bucket)) = []
   \<and> fst (Filelist env_ok publishedStorage listing_bucket ''test2'') = Inr []
   \<and> [] = Join [prefix publishedStorage, []]
   \<and> fst (Filelist env_ok publishedStorage listing_bucket [])
     = Inr [''a'', ''b'', ''c'', ''lala/a'', ''lala/b'', ''lala/c'', ''test/a'', ''test/b'',
            ''testa'']"
proof -
  have p: "prefix publishedStorage = []" by (simp add: publishedStorage_def)
  have h1: "''test'' = Join [prefix publishedStorage, ''test'']"
    by (simp add: p Join_root_test)
  have h2: "fault env_ok (calls listing_bucket)
              (CallObjects (if ''test'' = [] then [] else ''test'' @ ''/'')) = None"
    by (simp add: env_ok_def)
  have h3: "''test'' \<noteq> []" by simp
  have k1: "''test2'' = Join [prefix publishedStorage, ''test2'']"
    by (simp add: p Join_root_test)
  have k2: "fault env_ok (calls listing_bucket)
              (CallObjects (if ''test2'' = [] then [] else ''test2'' @ ''/'')) = None"
    by (simp add: env_ok_def)
  have k3: "''test2'' \<noteq> []" by simp
  have e1: "[] = Join [prefix publishedStorage, []]"
    by (simp add: p Join_root_test)
  have e2: "fault env_ok (calls listing_bucket)
              (CallObjects (if ([]::string) = [] then [] else [] @ ''/'')) = None"
    by (simp add: env_ok_def)
  from Filelist_prefix [OF h1 h2] h3
  have r1: "fst (Filelist env_ok publishedStorage listing_bucket ''test'') = Inr [''a'', ''b'']"
    by (simp only: Filelist_test_keys) simp
  from Filelist_prefix [OF k1 k2] k3 Filelist_test_keys(2)
  have r2: "fst (Filelist env_ok publishedStorage listing_bucket ''test2'') = Inr []"
    by blast
  from Filelist_prefix [OF e1 e2]
  have r3: "fst (Filelist env_ok publishedStorage listing_bucket [])
     = Inr [''a'', ''b'', ''c'', ''lala/a'', ''lala/b'', ''lala/c'', ''test/a'', ''test/b'',
            ''testa'']"
    by (simp only: Filelist_test_keys)
  from h1 h2 h3 r1 Filelist_test_keys(2) r2 e1 r3 show ?thesis by blast
qed

section \<open>SymLink, ReadLink and RenameFile\<close>

lemma obj_Copy_ok:
  assumes "obj_Copy e w src dst = (None, w')"
  shows "\<exists>a. map_of (objects w) src = Some a
           \<and> w' = logged (CallCopy src dst) (w\<lparr>objects := AList.update dst a (objects w)\<rparr>)"
  using assms by (auto simp add: obj_Copy_def split: option.splits)

lemma obj_Copy_failed:
  assumes "obj_Copy e w src dst = (Some err, w')"
  shows "w' = logged (CallCopy src dst) w"
  using assms by (auto simp add: obj_Copy_def split: option.splits)

lemma obj_Update_ok:
  assumes "obj_Update e w key md = (None, w')"
  shows "\<exists>a. map_of (objects w) key = Some a
           \<and> w' = logged (CallUpdate key md)
                  (w\<lparr>objects := AList.update key
                        (a\<lparr>Metadata := fold (\<lambda>(k, v). AList.update k v) md (Metadata a)\<rparr>)
                        (objects w)\<rparr>)"
  using assms by (auto simp add: obj_Update_def split: option.splits)

lemma obj_Delete_ok:
  assumes "obj_Delete e w key = (None, w')"
  shows "w' = logged (CallDelete key) (w\<lparr>objects := AList.delete key (objects w)\<rparr>)"
  using assms by (auto simp add: obj_Delete_def split: option.splits)

lemma SymLink_ok:
  assumes "SymLink e ps w src dst = (None, ps', w')"
  shows "\<exists>a. map_of (objects w) (Join [prefix ps, src]) = Some a
           \<and> map_of (objects w') (Join [prefix ps, dst])
             = Some (a\<lparr>Metadata := AList.update ''SymLink'' (Join [prefix ps, src]) (Metadata a)\<rparr>)
           \<and> ps' = ps"
proof -
  let ?s = "Join [prefix ps, src]" and ?d = "Join [prefix ps, dst]"
  from assms obtain w1 where c: "obj_Copy e w ?s ?d = (None, w1)"
    and u: "obj_Update e w1 ?d [(''SymLink'', ?s)] = (None, w')" and p: "ps' = ps"
    by (auto simp add: SymLink_def copy_def Let_def split: prod.splits option.splits)
  from obj_Copy_ok [OF c] obtain a where a: "map_of (objects w) ?s = Some a"
    and w1: "w1 = logged (CallCopy ?s ?d) (w\<lparr>objects := AList.update ?d a (objects w)\<rparr>)"
    by blast
  have m1: "map_of (objects w1) ?d = Some a"
    by (simp add: w1 objects_logged AList.update_conv')
  from obj_Update_ok [OF u] m1
  have "w' = logged (CallUpdate ?d [(''SymLink'', ?s)])
                (w1\<lparr>objects := AList.update ?d
                      (a\<lparr>Metadata := AList.update ''SymLink'' ?s (Metadata a)\<rparr>) (objects w1)\<rparr>)"
    by auto
  then have "map_of (objects w') ?d
             = Some (a\<lparr>Metadata := AList.update ''SymLink'' ?s (Metadata a)\<rparr>)"
    by (simp add: objects_logged AList.update_conv')
  with a p show ?thesis by blast
qed

lemma ReadLink_of_object:
  assumes "fault e (calls w) (CallAttrs (Join [prefix ps, path])) = None"
    and "map_of (objects w) (Join [prefix ps, path]) = Some a"
  shows "fst (ReadLink e ps w path) =
           (case map_of (Metadata a) ''SymLink'' of
              Some link \<Rightarrow> (link, None)
            | None \<Rightarrow> ([], Some (Errorf (''error getting information about '' @ path @ '' from ''
                                   @ String ps @ '': %!s(<nil>)''))))"
  using assms by (simp add: ReadLink_def attrs_def obj_Attrs_def Let_def split: option.splits)

lemma ReadLink_no_link:
  assumes "map_option (\<lambda>a. map_of (Metadata a) ''SymLink'') (map_of (objects w) (Join [prefix ps, path])) = Some None"
  shows "snd (fst (ReadLink e ps w path)) \<noteq> None"
  using assms by (auto simp add: ReadLink_def attrs_def obj_Attrs_def Let_def split: option.splits)

lemma Join_root_links:
  "Join [[], ''a/b''] = ''a/b''" "Join [[], ''a/b.link''] = ''a/b.link''"
  "Join [[], ''b/c''] = ''b/c''"
  by code_simp+

text \<open>
  Claim C8. After SymLink from \<open>a\<close> to \<open>b\<close> has returned no error, a ReadLink of \<open>b\<close>
  whose attribute request the client does not fail returns the storage prefix joined
  with \<open>a\<close>, and the object at the key of \<open>b\<close> has the bytes the object at the key of
  \<open>a\<close> had when SymLink was called. ReadLink of an object without the \<^verbatim>\<open>SymLink\<close>
  metadata key returns an error.
\<close>

theorem SymLink_ReadLink:
  "(SymLink e ps w a b = (None, ps', w')
      \<and> fault e (calls w') (CallAttrs (Join [prefix ps, b])) = None
    \<longrightarrow> fst (ReadLink e ps' w' b) = (Join [prefix ps, a], None)
        \<and> map_of (objects w) (Join [prefix ps, a]) \<noteq> None
        \<and> map_option Content (map_of (objects w') (Join [prefix ps, b]))
          = map_option Content (map_of (objects w) (Join [prefix ps, a])))
   \<and> (map_of (objects w) (Join [prefix ps, b]) = Some obj
        \<and> map_of (Metadata obj) ''SymLink'' = None
      \<longrightarrow> snd (fst (ReadLink e ps w b)) \<noteq> None)"
proof (intro conjI impI)
  assume h: "SymLink e ps w a b = (None, ps', w')
      \<and> fault e (calls w') (CallAttrs (Join [prefix ps, b])) = None"
  from SymLink_ok [of e ps w a b ps' w'] h obtain x where
    x: "map_of (objects w) (Join [prefix ps, a]) = Some x"
    and y: "map_of (objects w') (Join [prefix ps, b])
            = Some (x\<lparr>Metadata := AList.update ''SymLink'' (Join [prefix ps, a]) (Metadata x)\<rparr>)"
    and p: "ps' = ps" by blast
  from h p have f: "fault e (calls w') (CallAttrs (Join [prefix ps', b])) = None" by simp
  from ReadLink_of_object [OF f] y p
  show "fst (ReadLink e ps' w' b) = (Join [prefix ps, a], None)"
    by (simp add: AList.update_conv')
  from x show "map_of (objects w) (Join [prefix ps, a]) \<noteq> None" by simp
  from x y show "map_option Content (map_of (objects w') (Join [prefix ps, b]))
          = map_option Content (map_of (objects w) (Join [prefix ps, a]))" by simp
next
  assume "map_of (objects w) (Join [prefix ps, b]) = Some obj
        \<and> map_of (Metadata obj) ''SymLink'' = None"
  then show "snd (fst (ReadLink e ps w b)) \<noteq> None"
    by (intro ReadLink_no_link) simp
qed

theorem SymLink_ReadLink_witness:
  "SymLink env_ok publishedStorage file_bucket ''a/b'' ''a/b.link''
     = (None, publishedStorage, symlinked_bucket)
   \<and> fault env_ok (calls symlinked_bucket) (CallAttrs ''a/b.link'') = None
   \<and> fst (ReadLink env_ok publishedStorage symlinked_bucket ''a/b.link'') = (''a/b'', None)
   \<and> map_option Content (map_of (objects symlinked_bucket) ''a/b.link'') = Some ''test''
   \<and> map_of (objects file_bucket) ''a/b'' = Some (test_object ''test'')
   \<and> map_of (Metadata (test_object ''test'')) ''SymLink'' = None
   \<and> snd (fst (ReadLink env_ok publishedStorage file_bucket ''a/b'')) \<noteq> None"
proof -
  have p: "prefix publishedStorage = []" by (simp add: publishedStorage_def)
  have h1: "SymLink env_ok publishedStorage file_bucket ''a/b'' ''a/b.link''
            = (None, publishedStorage, symlinked_bucket)"
    by (simp add: SymLink_def copy_def obj_Copy_def obj_Update_def logged_def Let_def p
          Join_root_links env_ok_def file_bucket_def symlinked_bucket_def test_object_def)
  have h2: "fault env_ok (calls symlinked_bucket) (CallAttrs ''a/b.link'') = None"
    by (simp add: env_ok_def)
  have h3: "map_of (objects file_bucket) ''a/b'' = Some (test_object ''test'')"
    by (simp add: file_bucket_def)
  have h4: "map_of (Metadata (test_object ''test'')) ''SymLink'' = None"
    by (simp add: test_object_def)
  note r = SymLink_ReadLink [of env_ok publishedStorage file_bucket "''a/b''" "''a/b.link''"
                               publishedStorage symlinked_bucket "test_object ''test''"]
  from r h1 h2 have r1:
    "fst (ReadLink env_ok publishedStorage symlinked_bucket ''a/b.link'') = (''a/b'', None)"
    by (simp add: p Join_root_links)
  from r h1 h2 h3 have r2:
    "map_option Content (map_of (objects symlinked_bucket) ''a/b.link'') = Some ''test''"
    by (simp add: p Join_root_links test_object_def)
  note r' = SymLink_ReadLink [of env_ok publishedStorage file_bucket "''a/b''" "''a/b''"
                                publishedStorage symlinked_bucket "test_object ''test''"]
  from r' h3 h4 have r3:
    "snd (fst (ReadLink env_ok publishedStorage file_bucket ''a/b'')) \<noteq> None"
    by (simp add: p Join_root_links)
  from h1 h2 r1 r2 h3 h4 r3 show ?thesis by blast
qed

text \<open>
  Claim C9, as the code has it. When the keys of \<open>a\<close> and \<open>b\<close> differ and there is an
  object at the key of \<open>a\<close>, then after RenameFile has returned no error there is no
  object at the key of \<open>a\<close> and the object at the key of \<open>b\<close> is the one that was at the
  key of \<open>a\<close>. The copy comes first: when it fails, RenameFile returns its error and the
  object at the key of \<open>a\<close> is still there.
\<close>

theorem RenameFile_moves:
  "(Join [prefix ps, a] \<noteq> Join [prefix ps, b]
      \<and> map_of (objects w) (Join [prefix ps, a]) = Some obj
      \<and> RenameFile e ps w a b = (None, ps', w')
    \<longrightarrow> map_of (objects w') (Join [prefix ps, a]) = None
        \<and> map_of (objects w') (Join [prefix ps, b]) = Some obj)
   \<and> (map_of (objects w) (Join [prefix ps, a]) = Some obj
        \<and> fst (obj_Copy e w (Join [prefix ps, a]) (Join [prefix ps, b])) = Some err
      \<longrightarrow> fst (RenameFile e ps w a b) = Some err
        \<and> map_of (objects (snd (snd (RenameFile e ps w a b)))) (Join [prefix ps, a]) = Some obj)"
proof (intro conjI impI)
  let ?s = "Join [prefix ps, a]" and ?d = "Join [prefix ps, b]"
  assume h: "?s \<noteq> ?d \<and> map_of (objects w) ?s = Some obj
      \<and> RenameFile e ps w a b = (None, ps', w')"
  then obtain w1 where c: "obj_Copy e w ?s ?d = (None, w1)"
    and d: "obj_Delete e w1 ?s = (None, w')"
    by (auto simp add: RenameFile_def Let_def split: prod.splits option.splits)
  from obj_Copy_ok [OF c] h
  have w1: "w1 = logged (CallCopy ?s ?d) (w\<lparr>objects := AList.update ?d obj (objects w)\<rparr>)"
    by auto
  from obj_Delete_ok [OF d]
  have w': "objects w' = AList.delete ?s (objects w1)"
    by (simp add: objects_logged)
  show "map_of (objects w') ?s = None"
    by (simp add: w' AList.delete_conv')
  from h have "?d \<noteq> ?s" by auto
  then show "map_of (objects w') ?d = Some obj"
    by (simp add: w' w1 objects_logged AList.delete_conv' AList.update_conv')
next
  let ?s = "Join [prefix ps, a]" and ?d = "Join [prefix ps, b]"
  assume h: "map_of (objects w) ?s = Some obj \<and> fst (obj_Copy e w ?s ?d) = Some err"
  then obtain w1 where c: "obj_Copy e w ?s ?d = (Some err, w1)"
    by (cases "obj_Copy e w ?s ?d") auto
  from obj_Copy_failed [OF c] have w1: "w1 = logged (CallCopy ?s ?d) w" .
  from c have r: "RenameFile e ps w a b = (Some err, ps, w1)"
    by (simp add: RenameFile_def Let_def)
  from r show "fst (RenameFile e ps w a b) = Some err" by simp
  from r h w1 show "map_of (objects (snd (snd (RenameFile e ps w a b)))) ?s = Some obj"
    by (simp add: objects_logged)
qed

text \<open>
  The claim as written fails when both names have the same key: the copy puts the object
  onto itself, the delete removes it, RenameFile returns success and the key holds no
  object.
\<close>

theorem RenameFile_same_key_deletes:
  "fst (RenameFile env_ok publishedStorage file_bucket ''a/b'' ''a/b'') = None
   \<and> map_of (objects file_bucket) (Join [prefix publishedStorage, ''a/b''])
     = Some (test_object ''test'')
   \<and> map_of (objects (snd (snd (RenameFile env_ok publishedStorage file_bucket ''a/b'' ''a/b''))))
        (Join [prefix publishedStorage, ''a/b''])
     = None"
  by code_simp

theorem RenameFile_moves_witness:
  "''a/b'' \<noteq> ''b/c''
   \<and> map_of (objects file_bucket) ''a/b'' = Some (test_object ''test'')
   \<and> RenameFile env_ok publishedStorage file_bucket ''a/b'' ''b/c''
     = (None, publishedStorage,
        \<lparr>objects = [(''b/c'', test_object ''test'')],
         calls = [CallCopy ''a/b'' ''b/c'', CallDelete ''a/b'']\<rparr>)
   \<and> map_of [(''b/c'', test_object ''test'')] ''a/b'' = None
   \<and> map_of [(''b/c'', test_object ''test'')] ''b/c'' = Some (test_object ''test'')
   \<and> fst (obj_Copy env_unavailable file_bucket ''a/b'' ''b/c'')
     = Some (ErrExternal ''googleapi: Error 503'')
   \<and> fst (RenameFile env_unavailable publishedStorage file_bucket ''a/b'' ''b/c'')
     = Some (ErrExternal ''googleapi: Error 503'')
   \<and> map_of (objects (snd (snd (RenameFile env_unavailable publishedStorage file_bucket
                                   ''a/b'' ''b/c'')))) ''a/b''
     = Some (test_object ''test'')"
proof -
  have p: "prefix publishedStorage = []" by (simp add: publishedStorage_def)
  have h1: "''a/b'' \<noteq> ''b/c''" by simp
  have h2: "map_of (objects file_bucket) ''a/b'' = Some (test_object ''test'')"
    by (simp add: file_bucket_def)
  have h3: "RenameFile env_ok publishedStorage file_bucket ''a/b'' ''b/c''
            = (None, publishedStorage,
               \<lparr>objects = [(''b/c'', test_object ''test'')],
                calls = [CallCopy ''a/b'' ''b/c'', CallDelete ''a/b'']\<rparr>)"
    by (simp add: RenameFile_def obj_Copy_def obj_Delete_def logged_def Let_def p
          Join_root_links env_ok_def file_bucket_def AList.delete_eq)
  have h4: "fst (obj_Copy env_unavailable file_bucket ''a/b'' ''b/c'')
            = Some (ErrExternal ''googleapi: Error 503'')"
    by (simp add: obj_Copy_def env_unavailable_def)
  note r = RenameFile_moves [of publishedStorage "''a/b''" "''b/c''" file_bucket
                               "test_object ''test''" env_ok publishedStorage
                               "\<lparr>objects = [(''b/c'', test_object ''test'')],
                                 calls = [CallCopy ''a/b'' ''b/c'', CallDelete ''a/b'']\<rparr>"]
  from r h1 h2 h3 have r1: "map_of [(''b/c'', test_object ''test'')] ''a/b'' = None"
    and r2: "map_of [(''b/c'', test_object ''test'')] ''b/c'' = Some (test_object ''test'')"
    by (simp_all add: p Join_root_links)
  note r' = RenameFile_moves [of publishedStorage "''a/b''" "''b/c''" file_bucket
                                "test_object ''test''" env_unavailable _ _
                                "ErrExternal ''googleapi: Error 503''"]
  from r' h2 h4 have r3:
    "fst (RenameFile env_unavailable publishedStorage file_bucket ''a/b'' ''b/c'')
     = Some (ErrExternal ''googleapi: Error 503'')"
    and r4: "map_of (objects (snd (snd (RenameFile env_unavailable publishedStorage file_bucket
                                   ''a/b'' ''b/c'')))) ''a/b''
             = Some (test_object ''test'')"
    by (simp_all add: p Join_root_links)
  from h1 h2 h3 r1 r2 h4 r3 r4 show ?thesis by blast
qed

section \<open>The path cache is LinkFromPool's alone\<close>

lemma String_cache: "String (ps\<lparr>pathCache := c\<rparr>) = String ps"
  by (simp add: String_def)

lemma MkDir_cache:
  "MkDir e (ps\<lparr>pathCache := c\<rparr>) w path
   = (fst (MkDir e ps w path), ps\<lparr>pathCache := c\<rparr>, snd (snd (MkDir e ps w path)))"
  by (simp add: MkDir_def)

lemma PutFile_cache:
  "PutFile e (ps\<lparr>pathCache := c\<rparr>) w path sourceFilename
   = (fst (PutFile e ps w path sourceFilename), ps\<lparr>pathCache := c\<rparr>,
      snd (snd (PutFile e ps w path sourceFilename)))"
  by (simp add: PutFile_def putFile_def String_cache
           split: sum.splits prod.splits option.splits ReadSeeker.splits)

lemma Remove_cache:
  "Remove e (ps\<lparr>pathCache := c\<rparr>) w path
   = (fst (Remove e ps w path), ps\<lparr>pathCache := c\<rparr>, snd (snd (Remove e ps w path)))"
  by (simp add: Remove_def String_cache Let_def split: prod.splits option.splits)

lemma internalFilelist_cache:
  "internalFilelist e (ps\<lparr>pathCache := c\<rparr>) w q = internalFilelist e ps w q"
  by (simp add: internalFilelist_def String_cache Let_def cong: prod.case_cong sum.case_cong)

lemma Remove_cache':
  assumes "Remove e ps w path = (r, ps', w')"
  shows "ps' = ps \<and> Remove e (ps\<lparr>pathCache := c\<rparr>) w path = (r, ps\<lparr>pathCache := c\<rparr>, w')"
  using assms Remove_cache [where e = e and ps = ps and c = c and w = w and path = path]
        Remove_cache [where e = e and ps = ps and c = "pathCache ps" and w = w and path = path]
  by simp

lemma removeEach_cache':
  "removeEach e ps w path fs = (r, ps', w') \<Longrightarrow>
   ps' = ps \<and> removeEach e (ps\<lparr>pathCache := c\<rparr>) w path fs = (r, ps\<lparr>pathCache := c\<rparr>, w')"
proof (induction fs arbitrary: w)
  case Nil
  then show ?case by simp
next
  case (Cons f fs)
  obtain r1 ps1 w1 where rem: "Remove e ps w (Join [prefix ps, path, f]) = (r1, ps1, w1)"
    by (cases "Remove e ps w (Join [prefix ps, path, f])") auto
  from Remove_cache' [OF rem, of c]
  have ps1: "ps1 = ps"
    and rem': "Remove e (ps\<lparr>pathCache := c\<rparr>) w (Join [prefix ps, path, f])
               = (r1, ps\<lparr>pathCache := c\<rparr>, w1)"
    by simp_all
  show ?case
  proof (cases r1)
    case None
    with Cons.prems rem ps1 have "removeEach e ps w1 path fs = (r, ps', w')" by simp
    from Cons.IH [OF this] None rem' show ?thesis by simp
  next
    case (Some err)
    with Cons.prems rem ps1 rem' show ?thesis by (auto simp add: String_cache)
  qed
qed

lemma removeEach_cache:
  "removeEach e (ps\<lparr>pathCache := c\<rparr>) w path fs
   = (fst (removeEach e ps w path fs), ps\<lparr>pathCache := c\<rparr>,
      snd (snd (removeEach e ps w path fs)))"
  using removeEach_cache' [of e ps w path fs _ _ _ c]
  by (cases "removeEach e ps w path fs") simp

lemma RemoveDirs_cache:
  "RemoveDirs e (ps\<lparr>pathCache := c\<rparr>) w path
   = (fst (RemoveDirs e ps w path), ps\<lparr>pathCache := c\<rparr>, snd (snd (RemoveDirs e ps w path)))"
  by (simp add: RemoveDirs_def internalFilelist_cache removeEach_cache
           split: prod.splits sum.splits)

lemma Filelist_cache:
  "Filelist e (ps\<lparr>pathCache := c\<rparr>) w q
   = (fst (Filelist e ps w q), ps\<lparr>pathCache := c\<rparr>, snd (snd (Filelist e ps w q)))"
  by (simp add: Filelist_def internalFilelist_cache split: prod.splits sum.splits)

lemma RenameFile_cache:
  "RenameFile e (ps\<lparr>pathCache := c\<rparr>) w oldName newName
   = (fst (RenameFile e ps w oldName newName), ps\<lparr>pathCache := c\<rparr>,
      snd (snd (RenameFile e ps w oldName newName)))"
  by (simp add: RenameFile_def Let_def split: prod.splits option.splits)

lemma SymLink_cache:
  "SymLink e (ps\<lparr>pathCache := c\<rparr>) w src dst
   = (fst (SymLink e ps w src dst), ps\<lparr>pathCache := c\<rparr>, snd (snd (SymLink e ps w src dst)))"
  by (simp add: SymLink_def copy_def String_cache Let_def split: prod.splits option.splits)

lemma HardLink_cache:
  "HardLink e (ps\<lparr>pathCache := c\<rparr>) w src dst
   = (fst (HardLink e ps w src dst), ps\<lparr>pathCache := c\<rparr>, snd (snd (HardLink e ps w src dst)))"
  by (simp add: HardLink_def SymLink_cache)

lemma FileExists_cache:
  "FileExists e (ps\<lparr>pathCache := c\<rparr>) w path
   = (fst (FileExists e ps w path), ps\<lparr>pathCache := c\<rparr>, snd (snd (FileExists e ps w path)))"
  by (simp add: FileExists_def attrs_def Let_def split: prod.splits sum.splits)

lemma ReadLink_cache:
  "ReadLink e (ps\<lparr>pathCache := c\<rparr>) w path
   = (fst (ReadLink e ps w path), ps\<lparr>pathCache := c\<rparr>, snd (snd (ReadLink e ps w path)))"
  by (simp add: ReadLink_def attrs_def String_cache Let_def
           split: prod.splits sum.splits option.splits)

lemma stale_entry:
  assumes "pathCache ps = Some cache"
    and "cache (Join [publishedDirectory, fileName]) = Some sourceMD5"
    and "sourceMD5 \<noteq> []"
    and "map_of (objects w) (Join [prefix ps, Join [publishedDirectory, fileName]]) = Some obj"
    and "fault e (calls w) (CallDelete (Join [prefix ps, Join [publishedDirectory, fileName]])) = None"
    and "w' = snd (snd (Remove e ps w (Join [publishedDirectory, fileName])))"
  shows "Remove e ps w (Join [publishedDirectory, fileName]) = (None, ps, w')
       \<and> map_of (objects w') (Join [prefix ps, Join [publishedDirectory, fileName]]) = None
       \<and> LinkFromPool e ps w' publishedDirectory fileName sourcePool sourcePath sourceMD5 force
         = (None, ps, w')"
  using assms
  by (simp add: Remove_deletes AList.delete_conv' LinkFromPool_def Let_def)

text \<open>
  Claim C10. Each public method other than LinkFromPool, run on a storage whose path
  cache has been replaced by any \<open>c\<close>, returns the result and the bucket it returns for
  the storage as it was, and returns the storage with the cache \<open>c\<close>: the method's
  outcome does not depend on the cache, and the cache it returns is the one it was given.
  In particular a Remove that deletes the object of a cached path leaves the entry in
  the cache, and a LinkFromPool to that path with the cached checksum then returns
  success without any request, the object still absent.
\<close>

theorem pathCache_frame:
  "MkDir e (ps\<lparr>pathCache := c\<rparr>) w path
     = (fst (MkDir e ps w path), ps\<lparr>pathCache := c\<rparr>, snd (snd (MkDir e ps w path)))
   \<and> PutFile e (ps\<lparr>pathCache := c\<rparr>) w path sourceFilename
     = (fst (PutFile e ps w path sourceFilename), ps\<lparr>pathCache := c\<rparr>,
        snd (snd (PutFile e ps w path sourceFilename)))
   \<and> Remove e (ps\<lparr>pathCache := c\<rparr>) w path
     = (fst (Remove e ps w path), ps\<lparr>pathCache := c\<rparr>, snd (snd (Remove e ps w path)))
   \<and> RemoveDirs e (ps\<lparr>pathCache := c\<rparr>) w path
     = (fst (RemoveDirs e ps w path), ps\<lparr>pathCache := c\<rparr>,
        snd (snd (RemoveDirs e ps w path)))
   \<and> RenameFile e (ps\<lparr>pathCache := c\<rparr>) w oldName newName
     = (fst (RenameFile e ps w oldName newName), ps\<lparr>pathCache := c\<rparr>,
        snd (snd (RenameFile e ps w oldName newName)))
   \<and> SymLink e (ps\<lparr>pathCache := c\<rparr>) w src dst
     = (fst (SymLink e ps w src dst), ps\<lparr>pathCache := c\<rparr>,
        snd (snd (SymLink e ps w src dst)))
   \<and> HardLink e (ps\<lparr>pathCache := c\<rparr>) w src dst
     = (fst (HardLink e ps w src dst), ps\<lparr>pathCache := c\<rparr>,
        snd (snd (HardLink e ps w src dst)))
   \<and> FileExists e (ps\<lparr>pathCache := c\<rparr>) w path
     = (fst (FileExists e ps w path), ps\<lparr>pathCache := c\<rparr>,
        snd (snd (FileExists e ps w path)))
   \<and> ReadLink e (ps\<lparr>pathCache := c\<rparr>) w path
     = (fst (ReadLink e ps w path), ps\<lparr>pathCache := c\<rparr>, snd (snd (ReadLink e ps w path)))
   \<and> Filelist e (ps\<lparr>pathCache := c\<rparr>) w path
     = (fst (Filelist e ps w path), ps\<lparr>pathCache := c\<rparr>, snd (snd (Filelist e ps w path)))
   \<and> (pathCache ps = Some cache
        \<and> cache (Join [publishedDirectory, fileName]) = Some sourceMD5
        \<and> sourceMD5 \<noteq> []
        \<and> map_of (objects w) (Join [prefix ps, Join [publishedDirectory, fileName]]) = Some obj
        \<and> fault e (calls w)
             (CallDelete (Join [prefix ps, Join [publishedDirectory, fileName]])) = None
      \<longrightarrow> Remove e ps w (Join [publishedDirectory, fileName])
          = (None, ps, snd (snd (Remove e ps w (Join [publishedDirectory, fileName]))))
        \<and> map_of (objects (snd (snd (Remove e ps w (Join [publishedDirectory, fileName])))))
             (Join [prefix ps, Join [publishedDirectory, fileName]]) = None
        \<and> LinkFromPool e ps (snd (snd (Remove e ps w (Join [publishedDirectory, fileName]))))
             publishedDirectory fileName sourcePool sourcePath sourceMD5 force
          = (None, ps, snd (snd (Remove e ps w (Join [publishedDirectory, fileName])))))"
proof (intro conjI impI)
  show "MkDir e (ps\<lparr>pathCache := c\<rparr>) w path
     = (fst (MkDir e ps w path), ps\<lparr>pathCache := c\<rparr>, snd (snd (MkDir e ps w path)))"
    by (rule MkDir_cache)
  show "PutFile e (ps\<lparr>pathCache := c\<rparr>) w path sourceFilename
     = (fst (PutFile e ps w path sourceFilename), ps\<lparr>pathCache := c\<rparr>,
        snd (snd (PutFile e ps w path sourceFilename)))"
    by (rule PutFile_cache)
  show "Remove e (ps\<lparr>pathCache := c\<rparr>) w path
     = (fst (Remove e ps w path), ps\<lparr>pathCache := c\<rparr>, snd (snd (Remove e ps w path)))"
    by (rule Remove_cache)
  show "RemoveDirs e (ps\<lparr>pathCache := c\<rparr>) w path
     = (fst (RemoveDirs e ps w path), ps\<lparr>pathCache := c\<rparr>,
        snd (snd (RemoveDirs e ps w path)))"
    by (rule RemoveDirs_cache)
  show "RenameFile e (ps\<lparr>pathCache := c\<rparr>) w oldName newName
     = (fst (RenameFile e ps w oldName newName), ps\<lparr>pathCache := c\<rparr>,
        snd (snd (RenameFile e ps w oldName newName)))"
    by (rule RenameFile_cache)
  show "SymLink e (ps\<lparr>pathCache := c\<rparr>) w src dst
     = (fst (SymLink e ps w src dst), ps\<lparr>pathCache := c\<rparr>,
        snd (snd (SymLink e ps w src dst)))"
    by (rule SymLink_cache)
  show "HardLink e (ps\<lparr>pathCache := c\<rparr>) w src dst
     = (fst (HardLink e ps w src dst), ps\<lparr>pathCache := c\<rparr>,
        snd (snd (HardLink e ps w src dst)))"
    by (rule HardLink_cache)
  show "FileExists e (ps\<lparr>pathCache := c\<rparr>) w path
     = (fst (FileExists e ps w path), ps\<lparr>pathCache := c\<rparr>,
        snd (snd (FileExists e ps w path)))"
    by (rule FileExists_cache)
  show "ReadLink e (ps\<lparr>pathCache := c\<rparr>) w path
     = (fst (ReadLink e ps w path), ps\<lparr>pathCache := c\<rparr>, snd (snd (ReadLink e ps w path)))"
    by (rule ReadLink_cache)
  show "Filelist e (ps\<lparr>pathCache := c\<rparr>) w path
     = (fst (Filelist e ps w path), ps\<lparr>pathCache := c\<rparr>, snd (snd (Filelist e ps w path)))"
    by (rule Filelist_cache)
next
  assume h: "pathCache ps = Some cache
        \<and> cache (Join [publishedDirectory, fileName]) = Some sourceMD5
        \<and> sourceMD5 \<noteq> []
        \<and> map_of (objects w) (Join [prefix ps, Join [publishedDirectory, fileName]]) = Some obj
        \<and> fault e (calls w)
             (CallDelete (Join [prefix ps, Join [publishedDirectory, fileName]])) = None"
  then have h1: "pathCache ps = Some cache"
    and h2: "cache (Join [publishedDirectory, fileName]) = Some sourceMD5"
    and h3: "sourceMD5 \<noteq> []"
    and h4: "map_of (objects w) (Join [prefix ps, Join [publishedDirectory, fileName]]) = Some obj"
    and h5: "fault e (calls w)
               (CallDelete (Join [prefix ps, Join [publishedDirectory, fileName]])) = None"
    by simp_all
  note s = stale_entry [OF h1 h2 h3 h4 h5 refl, of sourcePool sourcePath force]
  from s show "Remove e ps w (Join [publishedDirectory, fileName])
          = (None, ps, snd (snd (Remove e ps w (Join [publishedDirectory, fileName]))))"
    by (rule conjunct1)
  from s show "map_of (objects (snd (snd (Remove e ps w (Join [publishedDirectory, fileName])))))
             (Join [prefix ps, Join [publishedDirectory, fileName]]) = None"
    by (elim conjE)
  from s show "LinkFromPool e ps (snd (snd (Remove e ps w (Join [publishedDirectory, fileName]))))
             publishedDirectory fileName sourcePool sourcePath sourceMD5 force
          = (None, ps, snd (snd (Remove e ps w (Join [publishedDirectory, fileName]))))"
    by (elim conjE)
qed

theorem pathCache_frame_witness:
  "pathCache cachedStorage = Some [''pool/a.deb'' \<mapsto> ''c1df'']
   \<and> [''pool/a.deb'' \<mapsto> ''c1df''] (Join [''pool'', ''a.deb'']) = Some ''c1df''
   \<and> ''c1df'' \<noteq> []
   \<and> map_of (objects linked_bucket) ''pool/a.deb'' = Some (test_object ''Contents'')
   \<and> fault env_ok (calls linked_bucket) (CallDelete ''pool/a.deb'') = None
   \<and> snd (snd (Remove env_ok cachedStorage linked_bucket ''pool/a.deb''))
     = \<lparr>objects = [],
        calls = [CallObjects [], CallWrite ''pool/a.deb'' ''Contents'',
                 CallDelete ''pool/a.deb'']\<rparr>
   \<and> LinkFromPool env_ok cachedStorage
        \<lparr>objects = [],
         calls = [CallObjects [], CallWrite ''pool/a.deb'' ''Contents'',
                  CallDelete ''pool/a.deb'']\<rparr>
        ''pool'' ''a.deb'' test_pool ''src1'' ''c1df'' False
     = (None, cachedStorage,
        \<lparr>objects = [],
         calls = [CallObjects [], CallWrite ''pool/a.deb'' ''Contents'',
                  CallDelete ''pool/a.deb'']\<rparr>)"
proof -
  have p: "prefix cachedStorage = []" by (simp add: cachedStorage_def)
  have h1: "pathCache cachedStorage = Some [''pool/a.deb'' \<mapsto> ''c1df'']"
    by (simp add: cachedStorage_def)
  have h2: "[''pool/a.deb'' \<mapsto> ''c1df''] (Join [''pool'', ''a.deb'']) = Some ''c1df''"
    by (simp add: Join_pool_a)
  have h3: "''c1df'' \<noteq> []" by simp
  have h4: "map_of (objects linked_bucket) ''pool/a.deb'' = Some (test_object ''Contents'')"
    by (simp add: linked_bucket_def)
  have h5: "fault env_ok (calls linked_bucket) (CallDelete ''pool/a.deb'') = None"
    by (simp add: env_ok_def)
  have h6: "snd (snd (Remove env_ok cachedStorage linked_bucket ''pool/a.deb''))
     = \<lparr>objects = [],
        calls = [CallObjects [], CallWrite ''pool/a.deb'' ''Contents'',
                 CallDelete ''pool/a.deb'']\<rparr>"
    by (simp add: Remove_def obj_Delete_def logged_def Let_def p Join_root_pool_a env_ok_def
          linked_bucket_def AList.delete_eq)
  note r = pathCache_frame [of env_ok _ cachedStorage linked_bucket _ _ _ _ _ _
                               "[''pool/a.deb'' \<mapsto> ''c1df'']" "''pool''" "''a.deb''" "''c1df''"
                               "test_object ''Contents''" test_pool "''src1''" False]
  from r h1 h2 h3 h4 h5 have
    "LinkFromPool env_ok cachedStorage
       (snd (snd (Remove env_ok cachedStorage linked_bucket (Join [''pool'', ''a.deb'']))))
       ''pool'' ''a.deb'' test_pool ''src1'' ''c1df'' False
     = (None, cachedStorage,
        snd (snd (Remove env_ok cachedStorage linked_bucket (Join [''pool'', ''a.deb'']))))"
    by (simp add: p Join_pool_a Join_root_pool_a)
  then have r1: "LinkFromPool env_ok cachedStorage
        \<lparr>objects = [],
         calls = [CallObjects [], CallWrite ''pool/a.deb'' ''Contents'',
                  CallDelete ''pool/a.deb'']\<rparr>
        ''pool'' ''a.deb'' test_pool ''src1'' ''c1df'' False
     = (None, cachedStorage,
        \<lparr>objects = [],
         calls = [CallObjects [], CallWrite ''pool/a.deb'' ''Contents'',
                  CallDelete ''pool/a.deb'']\<rparr>)"
    by (simp only: Join_pool_a h6)
  from h1 h2 h3 h4 h5 h6 r1 show ?thesis by blast
qed

section \<open>Runs of the package's tests\<close>

text \<open>
  The first link of the test of LinkFromPool: the cache is \<^verbatim>\<open>nil\<close>, the bucket is listed
  once, the source is written, and the cache has the entry of the new object. The result
  is the storage and the bucket the statements about a cached entry start from.
\<close>

lemma LinkFromPool_first_link:
  "LinkFromPool env_ok publishedStorage empty_bucket ''pool'' ''a.deb'' test_pool ''src1''
     ''c1df'' False
   = (None, cachedStorage, linked_bucket)"
  by (simp add: LinkFromPool_def internalFilelist_def obj_Objects_def putFile_def obj_Write_def
        logged_def fillCache_def Let_def Join_pool_a Join_root_pool_a env_ok_def
        publishedStorage_def empty_bucket_def test_pool_def cachedStorage_def linked_bucket_def
        test_object_def Join_root_test)

text \<open>
  The second link of that test on the storage with a prefix: the cache is \<^verbatim>\<open>nil\<close>, the
  object is in the bucket with the digest of the source, and the path given for the
  source cannot be opened. The listing fills the cache with the hex digest under the path
  without the prefix, and LinkFromPool returns success after the listing alone.
\<close>

lemma LinkFromPool_cache_from_listing:
  "fst (LinkFromPool env_ok prefixedStorage
          \<lparr>objects = [(''lala/pool/a.deb'',
                        \<lparr>Content = ''Contents'', MD5 = [CHR 0xc1, CHR 0xdf], Metadata = []\<rparr>)],
           calls = []\<rparr>
          ''pool'' ''a.deb'' test_pool ''wrong-looks-like-pathcache-doesnt-work'' ''c1df'' False)
   = None
   \<and> calls (snd (snd (LinkFromPool env_ok prefixedStorage
          \<lparr>objects = [(''lala/pool/a.deb'',
                        \<lparr>Content = ''Contents'', MD5 = [CHR 0xc1, CHR 0xdf], Metadata = []\<rparr>)],
           calls = []\<rparr>
          ''pool'' ''a.deb'' test_pool ''wrong-looks-like-pathcache-doesnt-work'' ''c1df'' False)))
     = [CallObjects ''lala/'']"
  by code_simp

end
